theory Spec2Isabelle
  imports Complex_Main "HOL-Library.Word" "HOL-Library.Multiset"
begin

chapter \<open>The upload server: a model of \<open>server.js\<close> and its properties\<close>

text \<open>
  Each handler of \<open>server.js\<close> is a function from what it reads (the request, the files
  on disk, the metadata store) to what it answers and the state it leaves. Calls into
  Node, Express and the JavaScript library (\<open>path.join\<close>, \<open>fs.existsSync\<close>,
  \<open>fs.createReadStream\<close>, \<open>parseInt\<close>, \<open>Array.prototype.sort\<close>, \<open>Math\<close>, the
  \<open>compression\<close> middleware) are modelled by what their documentation says.
  \<open>parseFloat\<close> is a parameter, and so is the distance function where its value in
  double arithmetic matters. The first part holds the definitions, the second the
  properties.
\<close>

section \<open>Strings and paths\<close>

text \<open>
  A JavaScript string is modelled by bytes, as a \<open>string\<close>: a request header by the
  bytes received, each of which Node reads as one character (Latin-1); every other
  string (a form field as multer hands it over, a query parameter, the percent-decoded
  file name, a path) by the UTF-8 encoding of its text. An ASCII character is one byte
  in both, and every operation the server applies to a string looks for ASCII
  characters only, but for the white space that \<open>parseInt\<close> skips, which is defined for
  the two encodings below. Numbers that the code obtains from \<open>parseInt\<close> are
  \<open>int option\<close> with \<open>None\<close> for NaN. Paths are POSIX paths.
\<close>

type_synonym byte = "8 word"
type_synonym path = "string list"

definition toLowerAscii :: "char \<Rightarrow> char" where
  "toLowerAscii c =
     (case map_of (zip ''ABCDEFGHIJKLMNOPQRSTUVWXYZ'' ''abcdefghijklmnopqrstuvwxyz'') c of
        Some d \<Rightarrow> d
      | None \<Rightarrow> c)"

text \<open>\<open>String.prototype.endsWith\<close>.\<close>

definition endsWith :: "string \<Rightarrow> string \<Rightarrow> bool" where
  "endsWith s suf = (length suf \<le> length s \<and> drop (length s - length suf) s = suf)"

text \<open>The test \<open>filename.match(/\.(glb|gltf)$/i)\<close> of the model-serving handler.\<close>

definition is_model_name :: "string \<Rightarrow> bool" where
  "is_model_name f =
     (endsWith (map toLowerAscii f) ''.glb'' \<or> endsWith (map toLowerAscii f) ''.gltf'')"

text \<open>\<open>String.prototype.split\<close> with a one-character separator.\<close>

fun split_on :: "char \<Rightarrow> string \<Rightarrow> string list" where
  "split_on d [] = [[]]"
| "split_on d (c # cs) =
     (if c = d then [] # split_on d cs
      else (case split_on d cs of
              p # ps \<Rightarrow> (c # p) # ps
            | [] \<Rightarrow> [[c]]))"

text \<open>
  \<open>path.join\<close> on POSIX: the parts are joined with a slash and the result is normalised.
  A path is the list of its segments below the file-system root. Empty segments and
  \<open>.\<close> are dropped, \<open>..\<close> removes the segment before it and is ignored at the root.
  (\<open>path.join\<close> keeps a trailing slash; a name that passed the extension test has none.)
\<close>

definition norm_step :: "path \<Rightarrow> string \<Rightarrow> path" where
  "norm_step acc seg =
     (if seg = '''' \<or> seg = ''.'' then acc
      else if seg = ''..'' then butlast acc
      else acc @ [seg])"

definition normalize :: "string list \<Rightarrow> path" where
  "normalize segs = foldl norm_step [] segs"

definition path_join :: "path \<Rightarrow> string \<Rightarrow> path" where
  "path_join dir name = normalize (dir @ split_on CHR ''/'' name)"

text \<open>
  The directories of the server. \<open>__dirname\<close> is a parameter: the segments of the
  directory that holds \<open>server.js\<close>.
\<close>

definition UPLOADS_DIR :: "path \<Rightarrow> path" where
  "UPLOADS_DIR dirname = path_join (path_join dirname ''public'') ''uploads''"

definition OPTIMIZED_DIR :: "path \<Rightarrow> path" where
  "OPTIMIZED_DIR dirname = path_join (UPLOADS_DIR dirname) ''optimized''"

section \<open>The file system\<close>

text \<open>
  The files on disk: a map from a normalised path to the bytes of the regular file
  there (directories are not entries). \<open>fs.existsSync\<close> and \<open>fs.statSync(p).size\<close>
  read it.
\<close>

type_synonym filesys = "path \<rightharpoonup> byte list"

definition existsSync :: "filesys \<Rightarrow> path \<Rightarrow> bool" where
  "existsSync fs p = (fs p \<noteq> None)"

definition statSize :: "filesys \<Rightarrow> path \<Rightarrow> int" where
  "statSize fs p = (case fs p of Some bs \<Rightarrow> int (length bs) | None \<Rightarrow> 0)"

definition readAll :: "filesys \<Rightarrow> path \<Rightarrow> byte list" where
  "readAll fs p = (case fs p of Some bs \<Rightarrow> bs | None \<Rightarrow> [])"

text \<open>\<open>Number.MAX_SAFE_INTEGER\<close>, the largest integer below which every integer is a double.\<close>

definition MAX_SAFE_INTEGER :: int where
  "MAX_SAFE_INTEGER = 9007199254740991"

text \<open>
  \<open>fs.createReadStream(p, {start, end})\<close>: Node refuses (throws a range error) a start or
  an end that is not an integer between 0 and \<open>MAX_SAFE_INTEGER\<close>, and a start beyond
  the end; otherwise the stream delivers the bytes at the offsets \<open>start\<close> to \<open>end\<close>,
  both included, stopping at the end of the file. \<open>None\<close> stands for the refusal.
\<close>

definition createReadStreamRange :: "filesys \<Rightarrow> path \<Rightarrow> int option \<Rightarrow> int option \<Rightarrow> byte list option" where
  "createReadStreamRange fs p start en =
     (case (start, en) of
        (Some s, Some e) \<Rightarrow>
          if s < 0 \<or> MAX_SAFE_INTEGER < s \<or> e < 0 \<or> MAX_SAFE_INTEGER < e \<or> e < s then None
          else Some (take (nat (e - s + 1)) (drop (nat s) (readAll fs p)))
      | _ \<Rightarrow> None)"

section \<open>Numbers read from and written to text\<close>

text \<open>
  The characters that \<open>parseInt\<close> skips at the start of its argument are the white space
  and the line terminators of the language: tab, line feed, vertical tab, form feed,
  carriage return, space, U+00A0, U+1680, U+2000 to U+200A, U+2028, U+2029, U+202F,
  U+205F, U+3000 and U+FEFF. Each is listed by the bytes that stand for it in the
  encoding of the string.
\<close>

datatype charset = Latin1 | Utf8

definition white_space :: "charset \<Rightarrow> string list" where
  "white_space cs =
     [[CHR 0x09], [CHR 0x0A], [CHR 0x0B], [CHR 0x0C], [CHR 0x0D], [CHR 0x20]] @
     (case cs of
        Latin1 \<Rightarrow> [[CHR 0xA0]]
      | Utf8 \<Rightarrow>
          [[CHR 0xC2, CHR 0xA0], [CHR 0xE1, CHR 0x9A, CHR 0x80],
           [CHR 0xE2, CHR 0x80, CHR 0x80], [CHR 0xE2, CHR 0x80, CHR 0x81],
           [CHR 0xE2, CHR 0x80, CHR 0x82], [CHR 0xE2, CHR 0x80, CHR 0x83],
           [CHR 0xE2, CHR 0x80, CHR 0x84], [CHR 0xE2, CHR 0x80, CHR 0x85],
           [CHR 0xE2, CHR 0x80, CHR 0x86], [CHR 0xE2, CHR 0x80, CHR 0x87],
           [CHR 0xE2, CHR 0x80, CHR 0x88], [CHR 0xE2, CHR 0x80, CHR 0x89],
           [CHR 0xE2, CHR 0x80, CHR 0x8A], [CHR 0xE2, CHR 0x80, CHR 0xA8],
           [CHR 0xE2, CHR 0x80, CHR 0xA9], [CHR 0xE2, CHR 0x80, CHR 0xAF],
           [CHR 0xE2, CHR 0x81, CHR 0x9F], [CHR 0xE3, CHR 0x80, CHR 0x80],
           [CHR 0xEF, CHR 0xBB, CHR 0xBF]])"

text \<open>
  The number of bytes of the white-space character a string begins with, 0 when it
  begins with none; and the string without the white space at its start.
\<close>

definition white_prefix :: "charset \<Rightarrow> string \<Rightarrow> nat" where
  "white_prefix cs s =
     (case find (\<lambda>w. take (length w) s = w) (white_space cs) of
        Some w \<Rightarrow> length w
      | None \<Rightarrow> 0)"

primrec skip_white :: "nat \<Rightarrow> charset \<Rightarrow> string \<Rightarrow> string" where
  "skip_white 0 cs s = s"
| "skip_white (Suc n) cs s =
     (if white_prefix cs s = 0 then s else skip_white n cs (drop (white_prefix cs s) s))"

definition trim_start :: "charset \<Rightarrow> string \<Rightarrow> string" where
  "trim_start cs s = skip_white (length s) cs s"

text \<open>The value of a character as a digit in a radix up to 36.\<close>

definition digit_val :: "char \<Rightarrow> nat option" where
  "digit_val c =
     (case map_of (zip ''0123456789abcdefghijklmnopqrstuvwxyz'' [0 ..< 36]) (toLowerAscii c) of
        Some v \<Rightarrow> Some v
      | None \<Rightarrow> None)"

definition is_digit_in :: "nat \<Rightarrow> char \<Rightarrow> bool" where
  "is_digit_in r c = (case digit_val c of Some v \<Rightarrow> v < r | None \<Rightarrow> False)"

definition digits_value :: "nat \<Rightarrow> string \<Rightarrow> nat" where
  "digits_value r ds = foldl (\<lambda>acc c. acc * r + the (digit_val c)) 0 ds"

text \<open>
  \<open>parseInt(s, radix)\<close>, the radix \<open>None\<close> when the call gives none: leading white space
  is skipped, one sign is read, a radix of 0 or none means 10, a radix outside 2 to 36
  gives NaN, without a radix (or with radix 16) a prefix \<open>0x\<close> selects base 16, then the
  longest run of digits is the value; no digit at all is NaN. The value here is the
  integer that the digits write. JavaScript returns the double nearest to it, which is
  that integer up to \<open>MAX_SAFE_INTEGER\<close> in magnitude; the properties below that depend
  on the value are stated for that range.
\<close>

definition parseInt :: "charset \<Rightarrow> string \<Rightarrow> nat option \<Rightarrow> int option" where
  "parseInt cs s radix =
     (let s1 = trim_start cs s;
          neg = (take 1 s1 = ''-'');
          s2 = (if take 1 s1 = ''-'' \<or> take 1 s1 = ''+'' then drop 1 s1 else s1);
          r0 = (case radix of Some r \<Rightarrow> r | None \<Rightarrow> 0);
          strip = (r0 = 0 \<or> r0 = 16);
          hex = (strip \<and> (take 2 s2 = ''0x'' \<or> take 2 s2 = ''0X''));
          r = (if hex then 16 else if r0 = 0 then 10 else r0);
          s3 = (if hex then drop 2 s2 else s2);
          ds = takeWhile (is_digit_in r) s3
      in if r0 \<noteq> 0 \<and> (r0 < 2 \<or> 36 < r0) then None
         else if ds = [] then None
         else Some ((if neg then - 1 else 1) * int (digits_value r ds)))"

text \<open>A number that is NaN or an integer of the range in which every integer is a double.\<close>

definition safe_integer :: "int option \<Rightarrow> bool" where
  "safe_integer v =
     (case v of Some n \<Rightarrow> - MAX_SAFE_INTEGER \<le> n \<and> n \<le> MAX_SAFE_INTEGER | None \<Rightarrow> True)"

text \<open>The decimal text of a number, as a template literal writes it.\<close>

definition digit_char :: "nat \<Rightarrow> char" where
  "digit_char d = ''0123456789'' ! d"

fun nat_str :: "nat \<Rightarrow> string" where
  "nat_str n = (if n < 10 then [digit_char n] else nat_str (n div 10) @ [digit_char (n mod 10)])"

declare nat_str.simps [simp del]

definition num_str :: "int option \<Rightarrow> string" where
  "num_str v =
     (case v of
        None \<Rightarrow> ''NaN''
      | Some i \<Rightarrow> if i < 0 then ''-'' @ nat_str (nat (- i)) else nat_str (nat i))"

text \<open>\<open>s.replace(/bytes=/, '')\<close>: the first occurrence of the text is removed.\<close>

fun remove_first :: "string \<Rightarrow> string \<Rightarrow> string" where
  "remove_first pat [] = []"
| "remove_first pat (c # cs) =
     (if take (length pat) (c # cs) = pat then drop (length pat) (c # cs)
      else c # remove_first pat cs)"

section \<open>The model-serving handler\<close>

text \<open>
  \<open>app.get('/uploads/:filename')\<close>. A request is the \<open>filename\<close> parameter, which
  Express has percent-decoded (so \<open>%2F\<close> has become a slash), and the \<open>Range\<close> header, if
  any. The handler either calls \<open>next()\<close>, or answers with a status, the headers it has
  set (a header value is a string or a number) and the bytes it streams, or calls
  \<open>writeHead\<close> and then raises because \<open>createReadStream\<close> refuses the range. The outcome
  is what the handler hands to the response object; the \<open>compression\<close> middleware, which
  stands between that object and the client, is defined after it.
\<close>

record request =
  req_filename :: string
  req_range :: "string option"

datatype hval = HStr string | HNum "int option"

type_synonym headers = "(string \<times> hval) list"

datatype outcome =
    Next
  | Response nat headers "byte list"
  | HeadThenRaise nat headers

text \<open>Lines 85 to 88: the file the handler selects.\<close>

definition optimizedPath :: "path \<Rightarrow> string \<Rightarrow> path" where
  "optimizedPath dirname filename = path_join (OPTIMIZED_DIR dirname) filename"

definition originalPath :: "path \<Rightarrow> string \<Rightarrow> path" where
  "originalPath dirname filename = path_join (UPLOADS_DIR dirname) filename"

definition filePath :: "path \<Rightarrow> filesys \<Rightarrow> string \<Rightarrow> path" where
  "filePath dirname fs filename =
     (if existsSync fs (optimizedPath dirname filename) then optimizedPath dirname filename
      else originalPath dirname filename)"

definition base_headers :: "path \<Rightarrow> filesys \<Rightarrow> string \<Rightarrow> headers" where
  "base_headers dirname fs filename =
     [(''Cache-Control'', HStr ''public, max-age=2592000, immutable''),
      (''Content-Type'',
         HStr (if endsWith filename ''.glb'' then ''model/gltf-binary'' else ''model/gltf+json'')),
      (''Accept-Ranges'', HStr ''bytes''),
      (''X-Optimized'',
         HStr (if existsSync fs (optimizedPath dirname filename) then ''true'' else ''false''))]"

text \<open>Lines 104 to 107: the two ends of the range and the length announced.\<close>

definition range_parts :: "string \<Rightarrow> string list" where
  "range_parts rng = split_on CHR ''-'' (remove_first ''bytes='' rng)"

definition range_start :: "string \<Rightarrow> int option" where
  "range_start rng = parseInt Latin1 (range_parts rng ! 0) (Some 10)"

definition range_end :: "string \<Rightarrow> int \<Rightarrow> int option" where
  "range_end rng fileSize =
     (case range_parts rng of
        _ # p1 # _ \<Rightarrow> if p1 \<noteq> '''' then parseInt Latin1 p1 (Some 10) else Some (fileSize - 1)
      | _ \<Rightarrow> Some (fileSize - 1))"

definition chunkSize :: "int option \<Rightarrow> int option \<Rightarrow> int option" where
  "chunkSize start en =
     (case (start, en) of (Some s, Some e) \<Rightarrow> Some ((e - s) + 1) | _ \<Rightarrow> None)"

definition serve_model :: "path \<Rightarrow> filesys \<Rightarrow> request \<Rightarrow> outcome" where
  "serve_model dirname fs req =
     (let filename = req_filename req in
      if \<not> is_model_name filename then Next
      else if \<not> existsSync fs (filePath dirname fs filename) then Next
      else
        let fp = filePath dirname fs filename;
            fileSize = statSize fs fp;
            hs = base_headers dirname fs filename
        in (case req_range req of
              Some rng \<Rightarrow>
                if rng \<noteq> '''' then
                  (let start = range_start rng;
                       en = range_end rng fileSize;
                       hs' = hs @ [(''Content-Range'',
                                      HStr (''bytes '' @ num_str start @ ''-'' @ num_str en
                                            @ ''/'' @ num_str (Some fileSize))),
                                   (''Content-Length'', HNum (chunkSize start en))]
                   in (case createReadStreamRange fs fp start en of
                         Some bs \<Rightarrow> Response 206 hs' bs
                       | None \<Rightarrow> HeadThenRaise 206 hs'))
                else Response 200 (hs @ [(''Content-Length'', HNum (Some fileSize))]) (readAll fs fp)
            | None \<Rightarrow>
                Response 200 (hs @ [(''Content-Length'', HNum (Some fileSize))]) (readAll fs fp)))"

text \<open>
  The status and the headers the handler has set when it stops, and the bytes it has
  streamed (none when it declined or raised).
\<close>

definition status_of :: "outcome \<Rightarrow> nat option" where
  "status_of out = (case out of Response st _ _ \<Rightarrow> Some st | HeadThenRaise st _ \<Rightarrow> Some st | Next \<Rightarrow> None)"

definition header_of :: "outcome \<Rightarrow> string \<Rightarrow> hval option" where
  "header_of out name =
     (case out of
        Response _ hs _ \<Rightarrow> map_of hs name
      | HeadThenRaise _ hs \<Rightarrow> map_of hs name
      | Next \<Rightarrow> None)"

definition body_of :: "outcome \<Rightarrow> byte list option" where
  "body_of out = (case out of Response _ _ bs \<Rightarrow> Some bs | _ \<Rightarrow> None)"

section \<open>The compression middleware and the response\<close>

text \<open>
  Lines 16 to 30 mount the \<open>compression\<close> middleware before every handler when the module
  can be loaded, with a threshold of 1024 bytes and a filter that is true for every
  request whose path, as it was sent, ends in \<open>.glb\<close>, \<open>.gltf\<close>, \<open>.fbx\<close> or \<open>.json\<close>
  (in any case of the letters); for another path, as when the extension is sent
  percent-encoded, the module's own filter decides by the content type. The middleware
  wraps the response object, and when the head is written it decides whether the body is
  re-encoded. When the filter refuses it does nothing. Otherwise it adds
  \<open>Vary: Accept-Encoding\<close>; it leaves the body as it is when \<open>Content-Length\<close> is a number
  below the threshold, or when the negotiation on the request's \<open>Accept-Encoding\<close> header
  yields no coding; otherwise it sets \<open>Content-Encoding\<close>, removes \<open>Content-Length\<close> and
  passes the body through the coder. Whether the module is installed, the answer of the
  filter, and the coding that the negotiation yields (none when the header is missing or
  asks for the identity) are parameters. The request is a GET request (to a HEAD request
  no body is sent). Headers that \<open>cors\<close>, Express and Node add
  (\<open>Access-Control-Allow-Origin\<close>, \<open>X-Powered-By\<close>, \<open>Date\<close>, \<open>Connection\<close>) are left
  out; none is a header named below.
\<close>

datatype coding = Gzip | Deflate | Brotli

definition coding_name :: "coding \<Rightarrow> string" where
  "coding_name c = (case c of Gzip \<Rightarrow> ''gzip'' | Deflate \<Rightarrow> ''deflate'' | Brotli \<Rightarrow> ''br'')"

text \<open>
  The body the client receives is a sequence of bytes as the handler streamed it, or the
  output of a coder on such a sequence. The response is declined (left to the handlers
  that follow), or a status, headers and a body, or broken off because the handler
  raised after it had written the head.
\<close>

datatype body = Plain "byte list" | Coded coding "byte list"

datatype reply =
    Declined
  | Answer nat headers body
  | Broken nat headers

text \<open>
  \<open>Number(res.getHeader('Content-Length'))\<close>: the handler sets a number there; NaN when
  the header is not set.
\<close>

definition content_length :: "headers \<Rightarrow> int option" where
  "content_length hs = (case map_of hs ''Content-Length'' of Some (HNum v) \<Rightarrow> v | _ \<Rightarrow> None)"

definition chosen_coding :: "coding option \<Rightarrow> headers \<Rightarrow> coding option" where
  "chosen_coding accepted hs =
     (case content_length hs of
        Some n \<Rightarrow> if n < 1024 then None else accepted
      | None \<Rightarrow> accepted)"

definition plain_head :: "headers \<Rightarrow> headers" where
  "plain_head hs = hs @ [(''Vary'', HStr ''Accept-Encoding'')]"

definition coded_head :: "coding \<Rightarrow> headers \<Rightarrow> headers" where
  "coded_head c hs =
     filter (\<lambda>h. fst h \<noteq> ''Content-Length'') hs
     @ [(''Vary'', HStr ''Accept-Encoding''), (''Content-Encoding'', HStr (coding_name c))]"

definition compression :: "coding option \<Rightarrow> outcome \<Rightarrow> reply" where
  "compression accepted out =
     (case out of
        Next \<Rightarrow> Declined
      | Response st hs bs \<Rightarrow>
          (case chosen_coding accepted hs of
             Some c \<Rightarrow> Answer st (coded_head c hs) (Coded c bs)
           | None \<Rightarrow> Answer st (plain_head hs) (Plain bs))
      | HeadThenRaise st hs \<Rightarrow>
          (case chosen_coding accepted hs of
             Some c \<Rightarrow> Broken st (coded_head c hs)
           | None \<Rightarrow> Broken st (plain_head hs)))"

text \<open>
  Without the middleware, or when its filter refuses, the response object sends what the
  handler hands to it.
\<close>

definition direct :: "outcome \<Rightarrow> reply" where
  "direct out =
     (case out of
        Next \<Rightarrow> Declined
      | Response st hs bs \<Rightarrow> Answer st hs (Plain bs)
      | HeadThenRaise st hs \<Rightarrow> Broken st hs)"

text \<open>The response to a request \<open>GET /uploads/:filename\<close>.\<close>

definition respond ::
  "bool \<Rightarrow> bool \<Rightarrow> coding option \<Rightarrow> path \<Rightarrow> filesys \<Rightarrow> request \<Rightarrow> reply" where
  "respond installed filtered accepted dirname fs req =
     (if installed \<and> filtered then compression accepted (serve_model dirname fs req)
      else direct (serve_model dirname fs req))"

definition reply_status :: "reply \<Rightarrow> nat option" where
  "reply_status r = (case r of Answer st _ _ \<Rightarrow> Some st | Broken st _ \<Rightarrow> Some st | Declined \<Rightarrow> None)"

definition reply_header :: "reply \<Rightarrow> string \<Rightarrow> hval option" where
  "reply_header r name =
     (case r of
        Answer _ hs _ \<Rightarrow> map_of hs name
      | Broken _ hs \<Rightarrow> map_of hs name
      | Declined \<Rightarrow> None)"

definition reply_body :: "reply \<Rightarrow> body option" where
  "reply_body r = (case r of Answer _ _ b \<Rightarrow> Some b | _ \<Rightarrow> None)"

text \<open>
  The text of a header \<open>bytes=<start>-<end>\<close>, the end given or left out, for stating
  what the handler answers to it.
\<close>

definition range_header :: "nat \<Rightarrow> nat option \<Rightarrow> string" where
  "range_header s eo =
     ''bytes='' @ nat_str s @ ''-'' @ (case eo of Some e \<Rightarrow> nat_str e | None \<Rightarrow> '''')"

text \<open>A path lies under a directory when the directory's segments begin it.\<close>

definition under :: "path \<Rightarrow> path \<Rightarrow> bool" where
  "under dir p = (take (length dir) p = dir)"

text \<open>A segment that normalisation keeps as it is.\<close>

definition plain_seg :: "string \<Rightarrow> bool" where
  "plain_seg s = (s \<noteq> '''' \<and> s \<noteq> ''.'' \<and> s \<noteq> ''..'')"

text \<open>
  Example data: a server installed in \<open>/app\<close> with one uploaded model of ten bytes, one
  with an optimised variant beside the upload, one with a file in the data directory,
  and one with uploaded models of 2048, 1024 and 1023 bytes.
\<close>

definition demo_fs :: filesys where
  "demo_fs = [[''app'', ''public'', ''uploads'', ''a.glb''] \<mapsto> [0, 1, 2, 3, 4, 5, 6, 7, 8, 9]]"

definition demo_fs_opt :: filesys where
  "demo_fs_opt =
     [[''app'', ''public'', ''uploads'', ''a.glb''] \<mapsto> [0, 1, 2, 3, 4, 5, 6, 7, 8, 9],
      [''app'', ''public'', ''uploads'', ''optimized'', ''a.glb''] \<mapsto> [7, 7, 7]]"

definition demo_fs_data :: filesys where
  "demo_fs_data = [[''app'', ''data'', ''x.glb''] \<mapsto> [1, 2, 3]]"

definition demo_fs_large :: filesys where
  "demo_fs_large =
     [[''app'', ''public'', ''uploads'', ''big.glb''] \<mapsto> replicate 2048 0,
      [''app'', ''public'', ''uploads'', ''kib.glb''] \<mapsto> replicate 1024 0,
      [''app'', ''public'', ''uploads'', ''less.glb''] \<mapsto> replicate 1023 0]"

definition demo_fs_upper :: filesys where
  "demo_fs_upper = [[''app'', ''public'', ''uploads'', ''A.GLB''] \<mapsto> [1, 2, 3]]"

section \<open>The metadata store\<close>

text \<open>
  A JavaScript number that need not be an integer is \<open>NaN\<close>, a finite value, taken as a
  real number, or one of the two infinities (\<open>Infinity True\<close> the positive one). A double
  is such a value; the arithmetic defined further down is the exact one, without the
  rounding that each operation of the machine adds. The two zeros are not told apart.
\<close>

datatype jsnum = NaN | Num real | Infinity bool

text \<open>
  An asset record as \<open>POST /upload\<close> writes it. The field \<open>model\<close> is optional because
  the handlers test it (\<open>asset.model ? ... : null\<close>); \<open>characterStats\<close> is flattened
  into its four numbers.
\<close>

record asset =
  a_id :: string
  a_model :: "string option"
  a_audio :: "string option"
  a_groundImage :: "string option"
  a_envImage :: "string option"
  a_props :: "string list"
  a_modelY :: jsnum
  a_caption :: "string option"
  a_characterName :: string
  a_characterEra :: string
  a_characterBio :: string
  a_characterHeight :: jsnum
  a_strength :: int
  a_strategy :: int
  a_leadership :: int
  a_defense :: int
  a_createdAt :: int

type_synonym db = "string \<rightharpoonup> asset"

text \<open>
  The state of the server: the module variable \<open>dbCache\<close> (\<open>None\<close> for \<open>null\<close>), the
  mapping whose JSON text is stored in \<open>data/db.json\<close>, and the files under the server's
  directory.
\<close>

record server_state =
  dbCache :: "db option"
  dbFile :: db
  files :: filesys

text \<open>
  \<open>JSON.parse(fs.readFileSync(DB_FILE, 'utf8'))\<close>. JSON has no infinity:
  \<open>JSON.stringify\<close> writes one as \<open>null\<close>, so a record read back from the file holds
  \<open>null\<close> in a field that held an infinity. A numeric field that holds \<open>null\<close> is written
  \<open>NaN\<close> here: the two are written alike in a JSON reply and both give way to the
  default under \<open>||\<close>.
\<close>

definition from_json :: "jsnum \<Rightarrow> jsnum" where
  "from_json v = (case v of Num x \<Rightarrow> Num x | _ \<Rightarrow> NaN)"

definition read_back :: "asset \<Rightarrow> asset" where
  "read_back a =
     a\<lparr>a_modelY := from_json (a_modelY a), a_characterHeight := from_json (a_characterHeight a)\<rparr>"

definition parsed :: "db \<Rightarrow> db" where
  "parsed db = (\<lambda>k. map_option read_back (db k))"

text \<open>
  \<open>fs.writeFileSync\<close> either writes the file or raises; what a failed write leaves in
  the file is the environment's choice and is carried by the outcome.
\<close>

datatype completion = Returned | Threw

datatype write_result = Written | WriteFailed db

text \<open>Lines 48 to 57.\<close>

definition getDB :: "server_state \<Rightarrow> db \<times> server_state" where
  "getDB st =
     (case dbCache st of
        None \<Rightarrow> (parsed (dbFile st), st\<lparr>dbCache := Some (parsed (dbFile st))\<rparr>)
      | Some db \<Rightarrow> (db, st))"

definition saveDB :: "db \<Rightarrow> write_result \<Rightarrow> server_state \<Rightarrow> completion \<times> server_state" where
  "saveDB db w st =
     (let st1 = st\<lparr>dbCache := Some db\<rparr>
      in case w of
           Written \<Rightarrow> (Returned, st1\<lparr>dbFile := db\<rparr>)
         | WriteFailed left \<Rightarrow> (Threw, st1\<lparr>dbFile := left\<rparr>))"

text \<open>
  \<open>path.basename\<close> on POSIX: the last segment that is not empty, or the empty string.
\<close>

definition basename :: "string \<Rightarrow> string" where
  "basename p =
     (case filter (\<lambda>seg. seg \<noteq> '''') (split_on CHR ''/'' p) of
        [] \<Rightarrow> ''''
      | segs \<Rightarrow> last segs)"

text \<open>
  \<open>db[key]\<close> on an object that \<open>JSON.parse\<close> built: an own property is the stored record;
  otherwise the names below are found on \<open>Object.prototype\<close> and give a function or
  object, which is truthy and has no property \<open>model\<close>; any other name gives \<open>undefined\<close>.
\<close>

definition object_prototype_names :: "string list" where
  "object_prototype_names =
     [''constructor'', ''__defineGetter__'', ''__defineSetter__'', ''hasOwnProperty'',
      ''__lookupGetter__'', ''__lookupSetter__'', ''isPrototypeOf'', ''propertyIsEnumerable'',
      ''toString'', ''valueOf'', ''__proto__'', ''toLocaleString'']"

datatype lookup = Own asset | Inherited | Undefined

definition db_get :: "db \<Rightarrow> string \<Rightarrow> lookup" where
  "db_get db k =
     (case db k of
        Some a \<Rightarrow> Own a
      | None \<Rightarrow> if k \<in> set object_prototype_names then Inherited else Undefined)"

text \<open>
  \<open>app.get('/api/asset/:id')\<close>. The reply is an error with its status and message, or
  the JSON object made of the record's fields (none for an inherited value) and
  \<open>modelSize\<close>, \<open>isOptimized\<close>, \<open>needsDraco\<close>.
\<close>

datatype asset_reply =
    AssetError nat string
  | AssetJson "asset option" int bool bool

definition modelFile_of :: "asset \<Rightarrow> string option" where
  "modelFile_of a =
     (case a_model a of
        Some m \<Rightarrow> if m \<noteq> '''' then Some (basename m) else None
      | None \<Rightarrow> None)"

definition model_info :: "path \<Rightarrow> filesys \<Rightarrow> string option \<Rightarrow> int \<times> bool" where
  "model_info dirname fs modelFile =
     (case modelFile of
        Some mf \<Rightarrow>
          if mf \<noteq> '''' then
            (if endsWith mf ''.glb'' \<and> existsSync fs (path_join (OPTIMIZED_DIR dirname) mf)
             then (statSize fs (path_join (OPTIMIZED_DIR dirname) mf), True)
             else if existsSync fs (path_join (UPLOADS_DIR dirname) mf)
             then (statSize fs (path_join (UPLOADS_DIR dirname) mf), False)
             else (0, False))
          else (0, False)
      | None \<Rightarrow> (0, False))"

definition get_asset :: "path \<Rightarrow> string \<Rightarrow> server_state \<Rightarrow> asset_reply \<times> server_state" where
  "get_asset dirname ident st =
     (let (db, st1) = getDB st
      in case db_get db ident of
           Undefined \<Rightarrow> (AssetError 404 ''Not found'', st1)
         | Inherited \<Rightarrow> (AssetJson None 0 False False, st1)
         | Own a \<Rightarrow>
             (let (modelSize, isOptimized) = model_info dirname (files st1) (modelFile_of a)
              in (AssetJson (Some a) modelSize isOptimized isOptimized, st1)))"


section \<open>The upload handler\<close>

text \<open>
  \<open>app.post('/upload')\<close> after multer has stored the files. A request carries the
  identifier that \<open>nanoid\<close> drew, the protocol and host, the time \<open>Date.now()\<close>, the
  stored name of the file of each field, and the text fields of the form. A text field
  is missing or a text: it is sent at most once and under its plain name (a name sent
  twice, or with brackets as in \<open>statStrength[x]\<close>, reaches the handler as an array or
  an object, which is outside the model). The request is a multipart form, so
  that multer has set \<open>req.files\<close>. \<open>parseFloat\<close> is a parameter \<open>pf\<close>, any function
  from texts to numbers. The \<open>animations\<close> and \<open>effects\<close> fields are
  parsed inside \<open>try\<close> blocks into variables that nothing reads, so they are left out.
\<close>

record upload_request =
  up_id :: string
  up_protocol :: string
  up_host :: string
  up_now :: int
  f_model :: "string option"
  f_audio :: "string option"
  f_groundImage :: "string option"
  f_envImage :: "string option"
  f_props :: "string list"
  b_modelY :: "string option"
  b_caption :: "string option"
  b_characterName :: "string option"
  b_characterEra :: "string option"
  b_characterBio :: "string option"
  b_characterHeight :: "string option"
  b_statStrength :: "string option"
  b_statStrategy :: "string option"
  b_statLeadership :: "string option"
  b_statDefense :: "string option"

text \<open>
  \<open>req.files[f] && req.files[f][0] ? path.basename(req.files[f][0].filename) : null\<close>.
\<close>

definition stored_file :: "string option \<Rightarrow> string option" where
  "stored_file v = (case v of Some name \<Rightarrow> Some (basename name) | None \<Rightarrow> None)"

text \<open>A string value is truthy when it is present and not empty.\<close>

definition truthy :: "string option \<Rightarrow> bool" where
  "truthy v = (case v of Some s \<Rightarrow> s \<noteq> '''' | None \<Rightarrow> False)"

definition upload_url :: "string option \<Rightarrow> string option" where
  "upload_url v = (case v of Some name \<Rightarrow> if name \<noteq> '''' then Some (''/uploads/'' @ name) else None
                   | None \<Rightarrow> None)"

text \<open>
  The argument of \<open>parseInt\<close> and \<open>parseFloat\<close> is converted to a string; a missing
  field reads \<open>undefined\<close>, in which \<open>parseFloat\<close> finds no number.
\<close>

definition to_text :: "string option \<Rightarrow> string" where
  "to_text v = (case v of Some s \<Rightarrow> s | None \<Rightarrow> ''undefined'')"

definition float_field :: "(string \<Rightarrow> jsnum) \<Rightarrow> string option \<Rightarrow> jsnum" where
  "float_field pf v = (case v of Some s \<Rightarrow> pf s | None \<Rightarrow> NaN)"

text \<open>\<open>v || d\<close>: the default replaces NaN, zero, the empty string and a missing value.\<close>

definition or_int :: "int option \<Rightarrow> int \<Rightarrow> int" where
  "or_int v d = (case v of Some n \<Rightarrow> if n \<noteq> 0 then n else d | None \<Rightarrow> d)"

definition or_num :: "jsnum \<Rightarrow> jsnum \<Rightarrow> jsnum" where
  "or_num v d =
     (case v of
        NaN \<Rightarrow> d
      | Num x \<Rightarrow> if x \<noteq> 0 then Num x else d
      | Infinity s \<Rightarrow> Infinity s)"

definition or_str :: "string option \<Rightarrow> string \<Rightarrow> string" where
  "or_str v d = (case v of Some s \<Rightarrow> if s \<noteq> '''' then s else d | None \<Rightarrow> d)"

text \<open>The default character name, in UTF-8.\<close>

definition default_name :: string where
  "default_name = ''V'' @ [CHR 0xE1, CHR 0xBB, CHR 0x8B] @ '' T''
                   @ [CHR 0xC6, CHR 0xB0, CHR 0xE1, CHR 0xBB, CHR 0x9B] @ ''ng''"

text \<open>Lines 189 to 210.\<close>

definition new_record :: "(string \<Rightarrow> jsnum) \<Rightarrow> upload_request \<Rightarrow> string \<Rightarrow> asset" where
  "new_record pf req modelFile =
     \<lparr>a_id = up_id req,
      a_model = Some (''/uploads/'' @ modelFile),
      a_audio = upload_url (stored_file (f_audio req)),
      a_groundImage = upload_url (stored_file (f_groundImage req)),
      a_envImage = upload_url (stored_file (f_envImage req)),
      a_props = map (\<lambda>f. ''/uploads/'' @ basename f) (f_props req),
      a_modelY = or_num (float_field pf (b_modelY req)) (Num 0),
      a_caption = (if truthy (b_caption req) then b_caption req else None),
      a_characterName = or_str (b_characterName req) default_name,
      a_characterEra = or_str (b_characterEra req) '''',
      a_characterBio = or_str (b_characterBio req) '''',
      a_characterHeight = or_num (float_field pf (b_characterHeight req)) (Num 170),
      a_strength = or_int (parseInt Utf8 (to_text (b_statStrength req)) None) 80,
      a_strategy = or_int (parseInt Utf8 (to_text (b_statStrategy req)) None) 80,
      a_leadership = or_int (parseInt Utf8 (to_text (b_statLeadership req)) None) 80,
      a_defense = or_int (parseInt Utf8 (to_text (b_statDefense req)) None) 80,
      a_createdAt = up_now req\<rparr>"

text \<open>
  The reply: an error with status and message, or \<open>{id, url}\<close> together with whether
  the background optimiser was started. The object \<open>getDB()\<close> returns is the cache
  itself, so the assignment \<open>db[id] = ...\<close> already changes the cache. \<open>statSync\<close> raises
  when the stored file is gone, and the handler's \<open>catch\<close> answers 500.
\<close>

datatype upload_reply =
    UploadError nat string
  | UploadOk string string bool

definition upload ::
  "path \<Rightarrow> (string \<Rightarrow> jsnum) \<Rightarrow> write_result \<Rightarrow> upload_request \<Rightarrow> server_state
     \<Rightarrow> upload_reply \<times> server_state" where
  "upload dirname pf w req st =
     (if \<not> truthy (stored_file (f_model req))
      then (UploadError 400 ''Model file is required (glb/gltf).'', st)
      else
        let modelFile = the (stored_file (f_model req));
            (db, st1) = getDB st;
            db' = db(up_id req \<mapsto> new_record pf req modelFile);
            st2 = st1\<lparr>dbCache := Some db'\<rparr>;
            (c, st3) = saveDB db' w st2;
            modelFullPath = path_join (UPLOADS_DIR dirname) modelFile
        in if c = Threw then (UploadError 500 ''Upload failed'', st3)
           else if endsWith modelFile ''.glb'' \<and> \<not> existsSync (files st3) modelFullPath
           then (UploadError 500 ''Upload failed'', st3)
           else (UploadOk (up_id req)
                   (up_protocol req @ ''://'' @ up_host req @ ''/view/'' @ up_id req)
                   (endsWith modelFile ''.glb''
                    \<and> statSize (files st3) modelFullPath \<le> 200 * (1024 * 1024)),
                 st3))"

text \<open>Example data for the store and the upload handler.\<close>

definition demo_upload :: upload_request where
  "demo_upload =
     \<lparr>up_id = ''Ab3dEf9h'', up_protocol = ''http'', up_host = ''localhost:3000'',
      up_now = 1700000000000,
      f_model = Some ''Ab3dEf9h-model.gltf'', f_audio = None, f_groundImage = None,
      f_envImage = None, f_props = [],
      b_modelY = Some ''abc'', b_caption = None, b_characterName = None,
      b_characterEra = None, b_characterBio = None, b_characterHeight = Some ''180'',
      b_statStrength = Some ([CHR 0xC2, CHR 0xA0] @ ''95''), b_statStrategy = Some ''0'',
      b_statLeadership = Some ''high'', b_statDefense = None\<rparr>"

definition demo_state :: server_state where
  "demo_state = \<lparr>dbCache = None, dbFile = Map.empty, files = demo_fs\<rparr>"

definition demo_parseFloat :: "string \<Rightarrow> jsnum" where
  "demo_parseFloat s = (if s = ''180'' then Num 180 else if s = ''0'' then Num 0 else NaN)"

definition demo_asset :: "string \<Rightarrow> asset" where
  "demo_asset m =
     \<lparr>a_id = ''Ab3dEf9h'', a_model = Some m, a_audio = None, a_groundImage = None,
      a_envImage = None, a_props = [], a_modelY = Num 0, a_caption = None,
      a_characterName = default_name, a_characterEra = '''', a_characterBio = '''',
      a_characterHeight = Num 170, a_strength = 80, a_strategy = 80, a_leadership = 80,
      a_defense = 80, a_createdAt = 1700000000000\<rparr>"

definition demo_fs_gltf :: filesys where
  "demo_fs_gltf =
     [[''app'', ''public'', ''uploads'', ''m.gltf''] \<mapsto> [0, 1, 2, 3, 4, 5, 6, 7, 8, 9],
      [''app'', ''public'', ''uploads'', ''optimized'', ''m.gltf''] \<mapsto> [7, 7, 7]]"

definition demo_state_gltf :: server_state where
  "demo_state_gltf =
     \<lparr>dbCache = Some [''Ab3dEf9h'' \<mapsto> demo_asset ''/uploads/m.gltf''],
      dbFile = [''Ab3dEf9h'' \<mapsto> demo_asset ''/uploads/m.gltf''],
      files = demo_fs_gltf\<rparr>"

definition demo_state_glb :: server_state where
  "demo_state_glb =
     \<lparr>dbCache = None,
      dbFile = [''Ab3dEf9h'' \<mapsto> demo_asset ''/uploads/a.glb''],
      files = demo_fs_opt\<rparr>"


section \<open>Numbers, the distance on the sphere and the nearby endpoint\<close>

text \<open>
  Arithmetic on JavaScript numbers, exact on the finite values: an operation on NaN gives
  NaN, the infinities follow the rules of the floating-point standard, and a division by
  zero gives an infinity (NaN for zero by zero), the zero counted as positive.
\<close>

definition js_add :: "jsnum \<Rightarrow> jsnum \<Rightarrow> jsnum" where
  "js_add a b =
     (case a of
        NaN \<Rightarrow> NaN
      | Num x \<Rightarrow> (case b of NaN \<Rightarrow> NaN | Num y \<Rightarrow> Num (x + y) | Infinity t \<Rightarrow> Infinity t)
      | Infinity s \<Rightarrow>
          (case b of
             NaN \<Rightarrow> NaN
           | Num y \<Rightarrow> Infinity s
           | Infinity t \<Rightarrow> if s = t then Infinity s else NaN))"

definition js_sub :: "jsnum \<Rightarrow> jsnum \<Rightarrow> jsnum" where
  "js_sub a b =
     (case a of
        NaN \<Rightarrow> NaN
      | Num x \<Rightarrow> (case b of NaN \<Rightarrow> NaN | Num y \<Rightarrow> Num (x - y) | Infinity t \<Rightarrow> Infinity (\<not> t))
      | Infinity s \<Rightarrow>
          (case b of
             NaN \<Rightarrow> NaN
           | Num y \<Rightarrow> Infinity s
           | Infinity t \<Rightarrow> if s \<noteq> t then Infinity s else NaN))"

definition js_mul :: "jsnum \<Rightarrow> jsnum \<Rightarrow> jsnum" where
  "js_mul a b =
     (case a of
        NaN \<Rightarrow> NaN
      | Num x \<Rightarrow>
          (case b of
             NaN \<Rightarrow> NaN
           | Num y \<Rightarrow> Num (x * y)
           | Infinity t \<Rightarrow> if x = 0 then NaN else Infinity (t = (0 < x)))
      | Infinity s \<Rightarrow>
          (case b of
             NaN \<Rightarrow> NaN
           | Num y \<Rightarrow> if y = 0 then NaN else Infinity (s = (0 < y))
           | Infinity t \<Rightarrow> Infinity (s = t)))"

definition js_div :: "jsnum \<Rightarrow> jsnum \<Rightarrow> jsnum" where
  "js_div a b =
     (case a of
        NaN \<Rightarrow> NaN
      | Num x \<Rightarrow>
          (case b of
             NaN \<Rightarrow> NaN
           | Num y \<Rightarrow> if y \<noteq> 0 then Num (x / y) else if x = 0 then NaN else Infinity (0 < x)
           | Infinity t \<Rightarrow> Num 0)
      | Infinity s \<Rightarrow>
          (case b of
             NaN \<Rightarrow> NaN
           | Num y \<Rightarrow> Infinity (s = (0 \<le> y))
           | Infinity t \<Rightarrow> NaN))"

text \<open>\<open>Math.sin\<close> and \<open>Math.cos\<close>: NaN at an infinity.\<close>

definition js_sin :: "jsnum \<Rightarrow> jsnum" where
  "js_sin a = (case a of Num x \<Rightarrow> Num (sin x) | _ \<Rightarrow> NaN)"

definition js_cos :: "jsnum \<Rightarrow> jsnum" where
  "js_cos a = (case a of Num x \<Rightarrow> Num (cos x) | _ \<Rightarrow> NaN)"

text \<open>\<open>Math.sqrt\<close> of a negative number is NaN.\<close>

definition js_sqrt :: "jsnum \<Rightarrow> jsnum" where
  "js_sqrt a =
     (case a of
        NaN \<Rightarrow> NaN
      | Num x \<Rightarrow> if x < 0 then NaN else Num (sqrt x)
      | Infinity s \<Rightarrow> if s then Infinity True else NaN)"

text \<open>\<open>Math.atan2(y, x)\<close>: the angle of the point \<open>(x, y)\<close>, 0 at the origin.\<close>

definition atan2 :: "real \<Rightarrow> real \<Rightarrow> real" where
  "atan2 y x =
     (if 0 < x then arctan (y / x)
      else if x < 0 then (if 0 \<le> y then arctan (y / x) + pi else arctan (y / x) - pi)
      else if 0 < y then pi / 2
      else if y < 0 then - pi / 2
      else 0)"

definition js_atan2 :: "jsnum \<Rightarrow> jsnum \<Rightarrow> jsnum" where
  "js_atan2 a b =
     (case a of
        NaN \<Rightarrow> NaN
      | Num y \<Rightarrow>
          (case b of
             NaN \<Rightarrow> NaN
           | Num x \<Rightarrow> Num (atan2 y x)
           | Infinity t \<Rightarrow> if t then Num 0 else if 0 \<le> y then Num pi else Num (- pi))
      | Infinity s \<Rightarrow>
          (case b of
             NaN \<Rightarrow> NaN
           | Num x \<Rightarrow> Num (if s then pi / 2 else - pi / 2)
           | Infinity t \<Rightarrow>
               Num ((if s then 1 else - 1) * (if t then pi / 4 else 3 * pi / 4))))"

text \<open>\<open>Math.round\<close> rounds to the nearest integer, a half upwards.\<close>

definition js_round :: "jsnum \<Rightarrow> jsnum" where
  "js_round a =
     (case a of
        NaN \<Rightarrow> NaN
      | Num x \<Rightarrow> Num (of_int \<lfloor>x + 1 / 2\<rfloor>)
      | Infinity s \<Rightarrow> Infinity s)"

text \<open>A comparison with NaN is false.\<close>

definition js_le :: "jsnum \<Rightarrow> jsnum \<Rightarrow> bool" where
  "js_le a b =
     (case a of
        NaN \<Rightarrow> False
      | Num x \<Rightarrow> (case b of NaN \<Rightarrow> False | Num y \<Rightarrow> x \<le> y | Infinity t \<Rightarrow> t)
      | Infinity s \<Rightarrow> (case b of NaN \<Rightarrow> False | Num y \<Rightarrow> \<not> s | Infinity t \<Rightarrow> \<not> s \<or> t))"

definition js_pos :: "jsnum \<Rightarrow> bool" where
  "js_pos a = (case a of NaN \<Rightarrow> False | Num x \<Rightarrow> 0 < x | Infinity s \<Rightarrow> s)"

text \<open>Whether a number is finite, and the value of a finite number.\<close>

definition is_num :: "jsnum \<Rightarrow> bool" where
  "is_num a = (case a of Num x \<Rightarrow> True | _ \<Rightarrow> False)"

definition num_val :: "jsnum \<Rightarrow> real" where
  "num_val a = (case a of Num x \<Rightarrow> x | _ \<Rightarrow> 0)"

text \<open>Lines 344 to 352, in this exact arithmetic.\<close>

definition haversineDistance :: "jsnum \<Rightarrow> jsnum \<Rightarrow> jsnum \<Rightarrow> jsnum \<Rightarrow> jsnum" where
  "haversineDistance lat1 lon1 lat2 lon2 =
     (let R = Num 6371000;
          dLat = js_div (js_mul (js_sub lat2 lat1) (Num pi)) (Num 180);
          dLon = js_div (js_mul (js_sub lon2 lon1) (Num pi)) (Num 180);
          a = js_add
                (js_mul (js_sin (js_div dLat (Num 2))) (js_sin (js_div dLat (Num 2))))
                (js_mul
                  (js_mul
                    (js_mul (js_cos (js_div (js_mul lat1 (Num pi)) (Num 180)))
                            (js_cos (js_div (js_mul lat2 (Num pi)) (Num 180))))
                    (js_sin (js_div dLon (Num 2))))
                  (js_sin (js_div dLon (Num 2))))
      in js_mul (js_mul R (Num 2)) (js_atan2 (js_sqrt a) (js_sqrt (js_sub (Num 1) a))))"

text \<open>Lines 333 to 342; the names are in UTF-8.\<close>

record site =
  s_id :: string
  s_name :: string
  s_lat :: real
  s_lng :: real
  s_radius :: real

definition HISTORICAL_SITES :: "site list" where
  "HISTORICAL_SITES =
     [\<lparr>s_id = ''rach-gam'',
       s_name = ''R'' @ [CHR 0xE1, CHR 0xBA, CHR 0xA1] @ ''ch G'' @ [CHR 0xE1, CHR 0xBA, CHR 0xA7]
                @ ''m - Xo'' @ [CHR 0xC3, CHR 0xA0] @ ''i M'' @ [CHR 0xC3, CHR 0xBA] @ ''t'',
       s_lat = 10.35, s_lng = 106.52, s_radius = 2000\<rparr>,
      \<lparr>s_id = ''bach-dang'',
       s_name = ''S'' @ [CHR 0xC3, CHR 0xB4] @ ''ng B'' @ [CHR 0xE1, CHR 0xBA, CHR 0xA1] @ ''ch ''
                @ [CHR 0xC4, CHR 0x90, CHR 0xE1, CHR 0xBA, CHR 0xB1] @ ''ng'',
       s_lat = 20.93, s_lng = 106.73, s_radius = 2000\<rparr>,
      \<lparr>s_id = ''chi-lang'',
       s_name = [CHR 0xE1, CHR 0xBA, CHR 0xA2] @ ''i Chi L'' @ [CHR 0xC4, CHR 0x83] @ ''ng'',
       s_lat = 21.58, s_lng = 106.57, s_radius = 2000\<rparr>,
      \<lparr>s_id = ''dong-da'',
       s_name = ''G'' @ [CHR 0xC3, CHR 0xB2] @ '' '' @ [CHR 0xC4, CHR 0x90, CHR 0xE1, CHR 0xBB, CHR 0x91]
                @ ''ng '' @ [CHR 0xC4, CHR 0x90] @ ''a'',
       s_lat = 21.01, s_lng = 105.83, s_radius = 1000\<rparr>,
      \<lparr>s_id = ''nhu-nguyet'',
       s_name = ''S'' @ [CHR 0xC3, CHR 0xB4] @ ''ng Nh'' @ [CHR 0xC6, CHR 0xB0] @ '' Nguy''
                @ [CHR 0xE1, CHR 0xBB, CHR 0x87] @ ''t'',
       s_lat = 21.22, s_lng = 106.07, s_radius = 2000\<rparr>,
      \<lparr>s_id = ''van-kiep'',
       s_name = ''V'' @ [CHR 0xE1, CHR 0xBA, CHR 0xA1] @ ''n Ki'' @ [CHR 0xE1, CHR 0xBA, CHR 0xBF] @ ''p'',
       s_lat = 21.1, s_lng = 106.48, s_radius = 2000\<rparr>,
      \<lparr>s_id = ''lam-son'',
       s_name = ''Lam S'' @ [CHR 0xC6, CHR 0xA1] @ ''n'',
       s_lat = 20.02, s_lng = 105.62, s_radius = 2000\<rparr>,
      \<lparr>s_id = ''hoa-lu'',
       s_name = ''C'' @ [CHR 0xE1, CHR 0xBB, CHR 0x91] @ '' '' @ [CHR 0xC4, CHR 0x91, CHR 0xC3, CHR 0xB4]
                @ '' Hoa L'' @ [CHR 0xC6, CHR 0xB0],
       s_lat = 20.28, s_lng = 105.92, s_radius = 1500\<rparr>]"

text \<open>
  The machine evaluates \<open>haversineDistance\<close> in double arithmetic: each operation rounds
  its result, and the coordinates of the sites are the doubles nearest to the decimals
  written. What it returns is near to, and in general not equal to, what the formula
  gives in exact arithmetic; where the exact value of \<open>a\<close> is 1 (the given point is the
  antipode of a site) or close to it, the rounded \<open>a\<close> can exceed 1, and then
  \<open>Math.sqrt(1 - a)\<close> and the distance are NaN. The endpoint is therefore defined for an
  arbitrary function \<open>hdist\<close> in the place of \<open>haversineDistance\<close>: what holds for every
  \<open>hdist\<close> holds for the function as the machine evaluates it.

  The object \<open>{...site, distance: Math.round(dist), isNear: dist <= site.radius}\<close>.
  \<open>Math.round\<close> and the comparison are exact on doubles, and the difference of two
  rounded distances has the sign of the exact difference.
\<close>

type_synonym distance_fun = "jsnum \<Rightarrow> jsnum \<Rightarrow> jsnum \<Rightarrow> jsnum \<Rightarrow> jsnum"

record located =
  l_site :: site
  l_distance :: jsnum
  l_isNear :: bool

definition locate :: "distance_fun \<Rightarrow> jsnum \<Rightarrow> jsnum \<Rightarrow> site \<Rightarrow> located" where
  "locate hdist userLat userLng st =
     (let dist = hdist userLat userLng (Num (s_lat st)) (Num (s_lng st))
      in \<lparr>l_site = st, l_distance = js_round dist, l_isNear = js_le dist (Num (s_radius st))\<rparr>)"

text \<open>
  \<open>Array.prototype.sort\<close> with a comparator: the sort is stable, an element moves
  behind another only when the comparator is positive (NaN counts as zero). For a
  consistent comparator that is the result of a stable insertion sort. When a distance
  is NaN the comparator is not consistent and the language leaves the order to the
  engine; the properties below state an order only for distances that are all numbers.
\<close>

fun insert_cmp :: "('a \<Rightarrow> 'a \<Rightarrow> jsnum) \<Rightarrow> 'a \<Rightarrow> 'a list \<Rightarrow> 'a list" where
  "insert_cmp c x [] = [x]"
| "insert_cmp c x (y # ys) = (if js_pos (c x y) then y # insert_cmp c x ys else x # y # ys)"

definition sort_cmp :: "('a \<Rightarrow> 'a \<Rightarrow> jsnum) \<Rightarrow> 'a list \<Rightarrow> 'a list" where
  "sort_cmp c xs = foldr (insert_cmp c) xs []"

text \<open>The comparator \<open>(a, b) => a.distance - b.distance\<close>.\<close>

definition by_distance :: "located \<Rightarrow> located \<Rightarrow> jsnum" where
  "by_distance a b = js_sub (l_distance a) (l_distance b)"

text \<open>
  \<open>app.get('/api/nearby')\<close>: each of the two query parameters is a text (given once, in
  the plain form \<open>lat=...\<close>) or missing, \<open>parseFloat\<close> is the parameter \<open>pf\<close> and the
  distance function the parameter \<open>hdist\<close>.
\<close>

datatype nearby_reply =
    NearbyError nat string
  | NearbyJson "located list"

definition nearby ::
  "(string \<Rightarrow> jsnum) \<Rightarrow> distance_fun \<Rightarrow> string option \<Rightarrow> string option \<Rightarrow> nearby_reply" where
  "nearby pf hdist lat lng =
     (if \<not> truthy lat \<or> \<not> truthy lng then NearbyError 400 ''lat and lng required''
      else
        let userLat = pf (to_text lat);
            userLng = pf (to_text lng)
        in NearbyJson (sort_cmp by_distance (map (locate hdist userLat userLng) HISTORICAL_SITES)))"

text \<open>The value \<open>a\<close> of \<open>haversineDistance\<close> for four numbers.\<close>

definition hav_a :: "real \<Rightarrow> real \<Rightarrow> real \<Rightarrow> real \<Rightarrow> real" where
  "hav_a lat1 lon1 lat2 lon2 =
     sin ((lat2 - lat1) * pi / 180 / 2) * sin ((lat2 - lat1) * pi / 180 / 2)
     + cos (lat1 * pi / 180) * cos (lat2 * pi / 180)
       * sin ((lon2 - lon1) * pi / 180 / 2) * sin ((lon2 - lon1) * pi / 180 / 2)"

text \<open>Example: \<open>parseFloat\<close> on the coordinates of the request \<open>lat=21.01&lng=105.83\<close>.\<close>

definition demo_coords :: "string \<Rightarrow> jsnum" where
  "demo_coords s =
     (if s = ''21.01'' then Num 21.01 else if s = ''105.83'' then Num 105.83 else NaN)"

text \<open>Example: \<open>parseFloat\<close> on the coordinates of \<open>lat=21.018996&lng=105.83\<close>.\<close>

definition demo_coords_edge :: "string \<Rightarrow> jsnum" where
  "demo_coords_edge s =
     (if s = ''21.018996'' then Num 21.018996 else if s = ''105.83'' then Num 105.83 else NaN)"

section \<open>Reading and writing decimal numbers\<close>

lemma remove_first_prefix: "pat \<noteq> [] \<Longrightarrow> remove_first pat (pat @ rest) = rest"
  by (cases pat) simp_all

lemma split_on_notin: "d \<notin> set xs \<Longrightarrow> split_on d xs = [xs]"
  by (induction xs) auto

lemma split_on_append: "d \<notin> set xs \<Longrightarrow> split_on d (xs @ d # ys) = xs # split_on d ys"
  by (induction xs) auto

lemma digit_table:
  "list_all (\<lambda>d. digit_val (digit_char d) = Some d
      \<and> digit_char d \<notin> set (map hd (white_space Latin1))
      \<and> digit_char d \<notin> set (map hd (white_space Utf8)) \<and>
      digit_char d \<noteq> CHR ''-'' \<and> digit_char d \<noteq> CHR ''+'' \<and> digit_char d \<noteq> CHR ''/''
      \<and> digit_char d \<noteq> CHR ''x'' \<and> digit_char d \<noteq> CHR ''X'') [0 ..< 10]"
  by code_simp

lemma white_space_first:
  assumes "white_prefix cs (c # s) \<noteq> 0"
  shows "c \<in> set (map hd (white_space cs))"
proof -
  from assms obtain w where w: "find (\<lambda>w. take (length w) (c # s) = w) (white_space cs) = Some w"
    by (auto simp add: white_prefix_def split: option.splits)
  then have mem: "w \<in> set (white_space cs)" and tk: "take (length w) (c # s) = w"
    by (auto simp add: find_Some_iff)
  from assms w have "w \<noteq> []" by (simp add: white_prefix_def)
  then obtain a w' where aw: "w = a # w'" by (cases w) auto
  with tk have "a = c" by simp
  with aw have "hd w = c" by simp
  moreover from mem have "hd w \<in> set (map hd (white_space cs))" by simp
  ultimately show ?thesis by simp
qed

lemma digit_char_props:
  assumes "d < 10"
  shows "digit_val (digit_char d) = Some d" "white_prefix cs (digit_char d # s) = 0"
    "digit_char d \<noteq> CHR ''-''" "digit_char d \<noteq> CHR ''+''" "digit_char d \<noteq> CHR ''/''"
    "digit_char d \<noteq> CHR ''x''" "digit_char d \<noteq> CHR ''X''"
proof -
  from assms have d: "d \<in> set [0 ..< 10]" by simp
  with digit_table show "digit_val (digit_char d) = Some d"
    "digit_char d \<noteq> CHR ''-''" "digit_char d \<noteq> CHR ''+''" "digit_char d \<noteq> CHR ''/''"
    "digit_char d \<noteq> CHR ''x''" "digit_char d \<noteq> CHR ''X''"
    unfolding list_all_iff by blast+
  from d digit_table have n: "digit_char d \<notin> set (map hd (white_space Latin1))"
      "digit_char d \<notin> set (map hd (white_space Utf8))"
    unfolding list_all_iff by blast+
  from n have "digit_char d \<notin> set (map hd (white_space cs))" by (cases cs) simp_all
  then show "white_prefix cs (digit_char d # s) = 0"
    using white_space_first [of cs "digit_char d" s] by blast
qed

lemma nat_str_nonempty: "nat_str n \<noteq> []"
  by (subst nat_str.simps) simp

lemma nat_str_digits: "c \<in> set (nat_str n) \<Longrightarrow> \<exists>d < 10. c = digit_char d"
proof (induction n rule: nat_str.induct)
  case (1 n)
  show ?case
  proof (cases "n < 10")
    case True
    with "1.prems" show ?thesis by (subst (asm) nat_str.simps) auto
  next
    case False
    with "1.prems" have "c \<in> set (nat_str (n div 10)) \<or> c = digit_char (n mod 10)"
      by (subst (asm) nat_str.simps) auto
    with False "1.IH" show ?thesis
      by (metis mod_less_divisor zero_less_numeral)
  qed
qed

lemma nat_str_no_dash: "CHR ''-'' \<notin> set (nat_str n)"
proof
  assume "CHR ''-'' \<in> set (nat_str n)"
  then obtain d where "d < 10" "CHR ''-'' = digit_char d"
    using nat_str_digits by blast
  then show False
    using digit_char_props(3) [of d] by simp
qed

lemma digits_value_snoc: "digits_value r (ds @ [c]) = digits_value r ds * r + the (digit_val c)"
  by (simp add: digits_value_def)

lemma digits_value_nat_str: "digits_value 10 (nat_str n) = n"
proof (induction n rule: nat_str.induct)
  case (1 n)
  show ?case
  proof (cases "n < 10")
    case True
    then show ?thesis
      by (subst nat_str.simps) (simp add: digits_value_def digit_char_props)
  next
    case False
    then have "digits_value 10 (nat_str n) = digits_value 10 (nat_str (n div 10)) * 10 + n mod 10"
      by (subst nat_str.simps) (simp add: digits_value_snoc digit_char_props)
    with False "1.IH" show ?thesis by simp
  qed
qed

text \<open>
  Reading back the decimal text of a number gives the number, with the radix 10 and with
  no radix.
\<close>

lemma nat_str_plain:
  "trim_start cs (nat_str n) = nat_str n"
  "takeWhile (is_digit_in 10) (nat_str n) = nat_str n"
  "take 1 (nat_str n) \<noteq> ''-''" "take 1 (nat_str n) \<noteq> ''+''"
  "take 2 (nat_str n) \<noteq> ''0x''" "take 2 (nat_str n) \<noteq> ''0X''"
proof -
  obtain c cs' where cs: "nat_str n = c # cs'"
    using nat_str_nonempty by (cases "nat_str n") auto
  have digit: "\<exists>d < 10. x = digit_char d" if "x \<in> set (nat_str n)" for x
    using that nat_str_digits by blast
  have all: "\<forall>x \<in> set (nat_str n). is_digit_in 10 x"
  proof
    fix x assume "x \<in> set (nat_str n)"
    then obtain d where "d < 10" "x = digit_char d"
      using digit by blast
    then show "is_digit_in 10 x"
      by (simp add: is_digit_in_def digit_char_props)
  qed
  have c: "white_prefix cs (c # cs') = 0" "c \<noteq> CHR ''-''" "c \<noteq> CHR ''+''"
    using digit [of c] cs by (auto simp: digit_char_props)
  then show "trim_start cs (nat_str n) = nat_str n"
    by (simp add: trim_start_def cs)
  show "takeWhile (is_digit_in 10) (nat_str n) = nat_str n"
    using all by simp
  show "take 1 (nat_str n) \<noteq> ''-''" "take 1 (nat_str n) \<noteq> ''+''"
    using c(2,3) by (simp_all add: cs)
  have nx: "CHR ''x'' \<notin> set (nat_str n)" "CHR ''X'' \<notin> set (nat_str n)"
    using digit digit_char_props(6,7) by metis+
  have "CHR ''x'' \<notin> set (take 2 (nat_str n))" "CHR ''X'' \<notin> set (take 2 (nat_str n))"
    using nx by (meson in_set_takeD)+
  then show "take 2 (nat_str n) \<noteq> ''0x''" "take 2 (nat_str n) \<noteq> ''0X''"
    by auto
qed

lemma parseInt_nat_str:
  "parseInt cs (nat_str n) (Some 10) = Some (int n)"
  "parseInt cs (nat_str n) None = Some (int n)"
  using digits_value_nat_str [of n] nat_str_nonempty [of n] nat_str_plain(3-6) [of n]
  by (simp_all add: parseInt_def nat_str_plain(1,2) Let_def)

lemma range_parts_header:
  "range_parts (range_header s eo) = [nat_str s, (case eo of Some e \<Rightarrow> nat_str e | None \<Rightarrow> '''')]"
proof -
  have "remove_first ''bytes='' (range_header s eo)
          = nat_str s @ CHR ''-'' # (case eo of Some e \<Rightarrow> nat_str e | None \<Rightarrow> '''')"
    unfolding range_header_def using remove_first_prefix [of "''bytes=''"] by simp
  moreover have "CHR ''-'' \<notin> set (case eo of Some e \<Rightarrow> nat_str e | None \<Rightarrow> '''')"
    by (simp add: nat_str_no_dash split: option.splits)
  ultimately show ?thesis
    by (simp add: range_parts_def split_on_append nat_str_no_dash split_on_notin)
qed

lemma range_start_header: "range_start (range_header s eo) = Some (int s)"
  by (simp add: range_start_def range_parts_header parseInt_nat_str)

lemma range_end_header:
  "range_end (range_header s eo) n = (case eo of Some e \<Rightarrow> Some (int e) | None \<Rightarrow> Some (n - 1))"
  by (simp add: range_end_def range_parts_header parseInt_nat_str nat_str_nonempty
      split: option.splits)

lemma range_header_nonempty: "range_header s eo \<noteq> ''''"
  by (simp add: range_header_def)

section \<open>The model-serving handler: what an accepted request is answered\<close>

lemma header_lookup:
  "map_of (base_headers d fs f @ extra) ''Content-Type'' =
     Some (HStr (if endsWith f ''.glb'' then ''model/gltf-binary'' else ''model/gltf+json''))"
  "map_of (base_headers d fs f @ [(''Content-Length'', v)]) ''Content-Length'' = Some v"
  "map_of (base_headers d fs f @ [(''Content-Range'', r), (''Content-Length'', v)]) ''Content-Length'' = Some v"
  "map_of (base_headers d fs f @ [(''Content-Range'', r), (''Content-Length'', v)]) ''Content-Range'' = Some r"
  "map_of (base_headers d fs f @ extra) ''X-Optimized'' =
     Some (HStr (if existsSync fs (optimizedPath d f) then ''true'' else ''false''))"
  by (simp_all add: base_headers_def)

lemma serve_model_no_range:
  assumes "is_model_name (req_filename req)"
    and "fs (filePath d fs (req_filename req)) = Some bytes"
    and "req_range req = None"
  shows "serve_model d fs req =
           Response 200 (base_headers d fs (req_filename req)
                           @ [(''Content-Length'', HNum (Some (int (length bytes))))]) bytes"
  using assms by (simp add: serve_model_def existsSync_def statSize_def readAll_def Let_def)

lemma serve_model_range:
  assumes "is_model_name (req_filename req)"
    and "fs (filePath d fs (req_filename req)) = Some bytes"
    and "req_range req = Some (range_header s eo)"
  shows "serve_model d fs req =
     (let en = (case eo of Some e \<Rightarrow> int e | None \<Rightarrow> int (length bytes) - 1);
          hs = base_headers d fs (req_filename req)
                 @ [(''Content-Range'',
                      HStr (''bytes '' @ nat_str s @ ''-'' @ num_str (Some en) @ ''/''
                            @ nat_str (length bytes))),
                    (''Content-Length'', HNum (Some (en - int s + 1)))]
      in if en < int s \<or> MAX_SAFE_INTEGER < int s \<or> MAX_SAFE_INTEGER < en
         then HeadThenRaise 206 hs
         else Response 206 hs (take (nat (en - int s + 1)) (drop s bytes)))"
  using assms
  by (cases eo)
     (auto simp add: serve_model_def existsSync_def statSize_def readAll_def Let_def
      range_header_nonempty range_start_header range_end_header chunkSize_def
      createReadStreamRange_def num_str_def)

lemma demo_request_facts:
  "is_model_name ''a.glb''"
  "filePath [''app''] demo_fs ''a.glb'' = [''app'', ''public'', ''uploads'', ''a.glb'']"
  "demo_fs [''app'', ''public'', ''uploads'', ''a.glb''] = Some [0, 1, 2, 3, 4, 5, 6, 7, 8, 9]"
  by code_simp+

lemma demo_range_facts:
  "range_header 2 (Some 5) = ''bytes=2-5''"
  "range_header 7 None = ''bytes=7-''"
  "nat_str 2 = ''2''" "nat_str 5 = ''5''" "nat_str 7 = ''7''" "nat_str 9 = ''9''"
  "nat_str 10 = ''10''"
  "nat_str (Suc (Suc (Suc (Suc (Suc (Suc (Suc (Suc (Suc (Suc 0)))))))))) = ''10''"
  by code_simp+

lemma plain_head_lookup: "k \<noteq> ''Vary'' \<Longrightarrow> map_of (plain_head hs) k = map_of hs k"
  by (simp add: plain_head_def map_add_def split: option.splits)

lemma filter_lookup:
  "map_of (filter (\<lambda>h. fst h \<noteq> k) hs) k' = (if k' = k then None else map_of hs k')"
  by (induction hs) auto

lemma coded_head_lookup:
  "map_of (coded_head c hs) ''Content-Length'' = None"
  "map_of hs ''Content-Encoding'' = None \<Longrightarrow>
     map_of (coded_head c hs) ''Content-Encoding'' = Some (HStr (coding_name c))"
  "map_of (coded_head c hs) ''Content-Range'' = map_of hs ''Content-Range''"
  by (simp_all add: coded_head_def map_add_def filter_lookup split: option.splits)

lemma no_content_encoding:
  "map_of (base_headers d fs f @ [(''Content-Length'', v)]) ''Content-Encoding'' = None"
  "map_of (base_headers d fs f @ [(''Content-Range'', r), (''Content-Length'', v)])
     ''Content-Encoding'' = None"
  by (simp_all add: base_headers_def)

lemma coded_encoding:
  "map_of (coded_head c (base_headers d fs f @ [(''Content-Length'', v)])) ''Content-Encoding''
     = Some (HStr (coding_name c))"
  "map_of (coded_head c (base_headers d fs f @ [(''Content-Range'', r), (''Content-Length'', v)]))
     ''Content-Encoding'' = Some (HStr (coding_name c))"
  by (rule coded_head_lookup(2), rule no_content_encoding)+

lemma respond_plain:
  assumes "serve_model dirname fs req = Response st hs bs"
    and "map_of hs ''Content-Length'' = Some (HNum (Some n))"
    and "\<not> installed \<or> \<not> filtered \<or> accepted = None \<or> n < 1024"
  shows "reply_status (respond installed filtered accepted dirname fs req) = Some st"
    and "k \<noteq> ''Vary'' \<Longrightarrow>
           reply_header (respond installed filtered accepted dirname fs req) k = map_of hs k"
    and "reply_body (respond installed filtered accepted dirname fs req) = Some (Plain bs)"
proof -
  have c: "chosen_coding accepted hs = None" if "installed \<and> filtered"
    using that assms(2,3) by (auto simp add: chosen_coding_def content_length_def)
  have r: "respond installed filtered accepted dirname fs req
      = (if installed \<and> filtered then Answer st (plain_head hs) (Plain bs)
         else Answer st hs (Plain bs))"
    using c by (simp add: respond_def compression_def direct_def assms(1))
  show "reply_status (respond installed filtered accepted dirname fs req) = Some st"
    by (simp add: r reply_status_def)
  show "reply_header (respond installed filtered accepted dirname fs req) k = map_of hs k"
    if "k \<noteq> ''Vary''"
    using that by (simp add: r reply_header_def plain_head_lookup)
  show "reply_body (respond installed filtered accepted dirname fs req) = Some (Plain bs)"
    by (simp add: r reply_body_def)
qed

lemma respond_coded:
  assumes "serve_model dirname fs req = Response st hs bs"
    and "map_of hs ''Content-Length'' = Some (HNum (Some n))"
    and "1024 \<le> n"
  shows "respond True True (Some c) dirname fs req = Answer st (coded_head c hs) (Coded c bs)"
  using assms
  by (simp add: respond_def compression_def chosen_coding_def content_length_def)

text \<open>
  C1, as the code has it. A request the handler accepts carries the header
  \<open>bytes=<start>-<end>\<close>, the end given or left out (then it is the file size less one),
  with the start not beyond the end and both safe integers. The response has status 206
  and \<open>Content-Range: bytes <start>-<end>/<fileSize>\<close>. When the compression middleware
  leaves the body as it is (the module is not installed, or its filter refuses, or the
  client accepts no coding, or \<open>end - start + 1\<close> is less than 1024),
  \<open>Content-Length\<close> is \<open>end - start + 1\<close> and the body is the bytes of the selected file
  at the offsets \<open>start\<close> to \<open>end\<close>, both included; these are \<open>end - start + 1\<close> bytes
  when the end lies inside the file. Otherwise there is no \<open>Content-Length\<close>,
  \<open>Content-Encoding\<close> names the coding, and the body is that window in the coding.
\<close>

theorem range_response:
  assumes "is_model_name (req_filename req)"
    and "fs (filePath dirname fs (req_filename req)) = Some bytes"
    and "req_range req = Some (range_header s eo)"
    and "en = (case eo of Some e \<Rightarrow> int e | None \<Rightarrow> int (length bytes) - 1)"
    and "int s \<le> en"
    and "en \<le> MAX_SAFE_INTEGER"
  shows "reply_status (respond installed filtered accepted dirname fs req) = Some 206
       \<and> reply_header (respond installed filtered accepted dirname fs req) ''Content-Range''
           = Some (HStr (''bytes '' @ nat_str s @ ''-'' @ num_str (Some en) @ ''/''
                         @ nat_str (length bytes)))
       \<and> (\<not> installed \<or> \<not> filtered \<or> accepted = None \<or> en - int s + 1 < 1024 \<longrightarrow>
            reply_header (respond installed filtered accepted dirname fs req) ''Content-Length''
              = Some (HNum (Some (en - int s + 1)))
            \<and> reply_body (respond installed filtered accepted dirname fs req)
              = Some (Plain (take (nat (en - int s + 1)) (drop s bytes))))
       \<and> (installed \<and> filtered \<and> accepted = Some c \<and> 1024 \<le> en - int s + 1 \<longrightarrow>
            reply_header (respond installed filtered accepted dirname fs req) ''Content-Length'' = None
            \<and> reply_header (respond installed filtered accepted dirname fs req) ''Content-Encoding''
              = Some (HStr (coding_name c))
            \<and> reply_body (respond installed filtered accepted dirname fs req)
              = Some (Coded c (take (nat (en - int s + 1)) (drop s bytes))))
       \<and> (en < int (length bytes) \<longrightarrow>
            length (take (nat (en - int s + 1)) (drop s bytes)) = nat (en - int s + 1))"
proof -
  let ?hs = "base_headers dirname fs (req_filename req)
      @ [(''Content-Range'',
           HStr (''bytes '' @ nat_str s @ ''-'' @ num_str (Some en) @ ''/''
                 @ nat_str (length bytes))),
         (''Content-Length'', HNum (Some (en - int s + 1)))]"
  let ?window = "take (nat (en - int s + 1)) (drop s bytes)"
  have out: "serve_model dirname fs req = Response 206 ?hs ?window"
    using assms by (auto simp add: serve_model_range Let_def)
  have cl: "map_of ?hs ''Content-Length'' = Some (HNum (Some (en - int s + 1)))"
    by (simp add: header_lookup del: map_of_append)
  have cr: "map_of ?hs ''Content-Range''
      = Some (HStr (''bytes '' @ nat_str s @ ''-'' @ num_str (Some en) @ ''/''
                    @ nat_str (length bytes)))"
    by (simp add: header_lookup del: map_of_append)
  have len: "length ?window = nat (en - int s + 1)" if "en < int (length bytes)"
    using that assms(5) by simp
  have plain: "reply_status (respond installed filtered accepted dirname fs req) = Some 206
      \<and> reply_header (respond installed filtered accepted dirname fs req) ''Content-Range''
          = map_of ?hs ''Content-Range''
      \<and> reply_header (respond installed filtered accepted dirname fs req) ''Content-Length''
          = Some (HNum (Some (en - int s + 1)))
      \<and> reply_body (respond installed filtered accepted dirname fs req) = Some (Plain ?window)"
    if p: "\<not> installed \<or> \<not> filtered \<or> accepted = None \<or> en - int s + 1 < 1024"
  proof -
    note r = respond_plain [OF out cl p]
    from r(1) r(2) [of "''Content-Range''"] r(2) [of "''Content-Length''"] r(3) cl
    show ?thesis by simp
  qed
  have coded: "reply_status (respond installed filtered accepted dirname fs req) = Some 206
      \<and> reply_header (respond installed filtered accepted dirname fs req) ''Content-Range''
          = map_of ?hs ''Content-Range''
      \<and> reply_header (respond installed filtered accepted dirname fs req) ''Content-Length'' = None
      \<and> reply_header (respond installed filtered accepted dirname fs req) ''Content-Encoding''
          = Some (HStr (coding_name c))
      \<and> reply_body (respond installed filtered accepted dirname fs req) = Some (Coded c ?window)"
    if q: "installed \<and> filtered \<and> accepted = Some c \<and> 1024 \<le> en - int s + 1"
  proof -
    have "respond installed filtered accepted dirname fs req
        = Answer 206 (coded_head c ?hs) (Coded c ?window)"
      using q respond_coded [OF out cl, of c] by simp
    then show ?thesis
      by (simp add: reply_status_def reply_header_def reply_body_def coded_head_lookup(1,3)
          coded_encoding del: map_of_append)
  qed
  have either: "(\<not> installed \<or> \<not> filtered \<or> accepted = None \<or> en - int s + 1 < 1024)
      \<or> (\<exists>c'. installed \<and> filtered \<and> accepted = Some c' \<and> 1024 \<le> en - int s + 1)"
    by (cases accepted) auto
  have head: "reply_status (respond installed filtered accepted dirname fs req) = Some 206
      \<and> reply_header (respond installed filtered accepted dirname fs req) ''Content-Range''
          = map_of ?hs ''Content-Range''"
  proof (cases "\<not> installed \<or> \<not> filtered \<or> accepted = None \<or> en - int s + 1 < 1024")
    case True
    with plain show ?thesis by blast
  next
    case False
    then obtain c' where q: "installed \<and> filtered \<and> accepted = Some c' \<and> 1024 \<le> en - int s + 1"
      using either by blast
    have "respond installed filtered accepted dirname fs req
        = Answer 206 (coded_head c' ?hs) (Coded c' ?window)"
      using q respond_coded [OF out cl, of c'] by simp
    then show ?thesis
      by (simp add: reply_status_def reply_header_def coded_head_lookup(3) del: map_of_append)
  qed
  have c1: "reply_status (respond installed filtered accepted dirname fs req) = Some 206"
    using head by simp
  have c2: "reply_header (respond installed filtered accepted dirname fs req) ''Content-Range''
           = Some (HStr (''bytes '' @ nat_str s @ ''-'' @ num_str (Some en) @ ''/''
                         @ nat_str (length bytes)))"
    using head cr by (simp only:)
  have c3: "\<not> installed \<or> \<not> filtered \<or> accepted = None \<or> en - int s + 1 < 1024 \<longrightarrow>
            reply_header (respond installed filtered accepted dirname fs req) ''Content-Length''
              = Some (HNum (Some (en - int s + 1)))
            \<and> reply_body (respond installed filtered accepted dirname fs req)
              = Some (Plain (take (nat (en - int s + 1)) (drop s bytes)))"
    using plain by auto
  have c4: "installed \<and> filtered \<and> accepted = Some c \<and> 1024 \<le> en - int s + 1 \<longrightarrow>
            reply_header (respond installed filtered accepted dirname fs req) ''Content-Length'' = None
            \<and> reply_header (respond installed filtered accepted dirname fs req) ''Content-Encoding''
              = Some (HStr (coding_name c))
            \<and> reply_body (respond installed filtered accepted dirname fs req)
              = Some (Coded c (take (nat (en - int s + 1)) (drop s bytes)))"
    using coded by auto
  have c5: "en < int (length bytes) \<longrightarrow>
            length (take (nat (en - int s + 1)) (drop s bytes)) = nat (en - int s + 1)"
    using len by auto
  from c1 c2 c3 c4 c5 show ?thesis by (intro conjI)
qed

lemma demo_respond_facts:
  "is_model_name ''big.glb''" "is_model_name ''kib.glb''" "is_model_name ''less.glb''"
  "filePath [''app''] demo_fs_large ''big.glb'' = [''app'', ''public'', ''uploads'', ''big.glb'']"
  "filePath [''app''] demo_fs_large ''kib.glb'' = [''app'', ''public'', ''uploads'', ''kib.glb'']"
  "filePath [''app''] demo_fs_large ''less.glb'' = [''app'', ''public'', ''uploads'', ''less.glb'']"
  "range_header 0 (Some 1023) = ''bytes=0-1023''"
  "range_header 2 (Some 1024) = ''bytes=2-1024''"
  "range_header 0 (Some 1499) = ''bytes=0-1499''"
  "nat_str 0 = ''0''" "nat_str 1023 = ''1023''" "nat_str 1024 = ''1024''"
  "nat_str 2048 = ''2048''"
  by code_simp+

lemma demo_large_file:
  "demo_fs_large [''app'', ''public'', ''uploads'', ''big.glb''] = Some (replicate 2048 0)"
  "demo_fs_large [''app'', ''public'', ''uploads'', ''kib.glb''] = Some (replicate 1024 0)"
  "demo_fs_large [''app'', ''public'', ''uploads'', ''less.glb''] = Some (replicate 1023 0)"
  by (simp_all add: demo_fs_large_def)

text \<open>
  The requests \<open>bytes=2-5\<close> and \<open>bytes=7-\<close> for a file of ten bytes, and the request
  \<open>bytes=2-1024\<close> (1023 bytes) for a file of 2048 bytes, from a client that accepts gzip,
  with the compression module installed; and the request \<open>bytes=0-1499\<close> for that file
  from a client that accepts deflate.
\<close>

theorem range_response_witness:
  "reply_status (respond True True (Some Gzip) [''app''] demo_fs
       \<lparr>req_filename = ''a.glb'', req_range = Some ''bytes=2-5''\<rparr>) = Some 206
   \<and> reply_header (respond True True (Some Gzip) [''app''] demo_fs
       \<lparr>req_filename = ''a.glb'', req_range = Some ''bytes=2-5''\<rparr>) ''Content-Range''
       = Some (HStr ''bytes 2-5/10'')
   \<and> reply_header (respond True True (Some Gzip) [''app''] demo_fs
       \<lparr>req_filename = ''a.glb'', req_range = Some ''bytes=2-5''\<rparr>) ''Content-Length''
       = Some (HNum (Some 4))
   \<and> reply_body (respond True True (Some Gzip) [''app''] demo_fs
       \<lparr>req_filename = ''a.glb'', req_range = Some ''bytes=2-5''\<rparr>) = Some (Plain [2, 3, 4, 5])
   \<and> reply_status (respond True True (Some Gzip) [''app''] demo_fs
       \<lparr>req_filename = ''a.glb'', req_range = Some ''bytes=7-''\<rparr>) = Some 206
   \<and> reply_header (respond True True (Some Gzip) [''app''] demo_fs
       \<lparr>req_filename = ''a.glb'', req_range = Some ''bytes=7-''\<rparr>) ''Content-Range''
       = Some (HStr ''bytes 7-9/10'')
   \<and> reply_body (respond True True (Some Gzip) [''app''] demo_fs
       \<lparr>req_filename = ''a.glb'', req_range = Some ''bytes=7-''\<rparr>) = Some (Plain [7, 8, 9])
   \<and> reply_header (respond True True (Some Gzip) [''app''] demo_fs_large
       \<lparr>req_filename = ''big.glb'', req_range = Some ''bytes=2-1024''\<rparr>) ''Content-Length''
       = Some (HNum (Some 1023))
   \<and> reply_body (respond True True (Some Gzip) [''app''] demo_fs_large
       \<lparr>req_filename = ''big.glb'', req_range = Some ''bytes=2-1024''\<rparr>)
       = Some (Plain (replicate 1023 0))
   \<and> reply_header (respond True True (Some Deflate) [''app''] demo_fs_large
       \<lparr>req_filename = ''big.glb'', req_range = Some ''bytes=0-1499''\<rparr>) ''Content-Length''
       = None
   \<and> reply_body (respond True True (Some Deflate) [''app''] demo_fs_large
       \<lparr>req_filename = ''big.glb'', req_range = Some ''bytes=0-1499''\<rparr>)
       = Some (Coded Deflate (replicate 1500 0))"
proof -
  have given:
    "reply_status (respond True True (Some Gzip) [''app''] demo_fs
        \<lparr>req_filename = ''a.glb'', req_range = Some ''bytes=2-5''\<rparr>) = Some 206
      \<and> reply_header (respond True True (Some Gzip) [''app''] demo_fs
        \<lparr>req_filename = ''a.glb'', req_range = Some ''bytes=2-5''\<rparr>) ''Content-Range''
        = Some (HStr ''bytes 2-5/10'')
      \<and> reply_header (respond True True (Some Gzip) [''app''] demo_fs
        \<lparr>req_filename = ''a.glb'', req_range = Some ''bytes=2-5''\<rparr>) ''Content-Length''
        = Some (HNum (Some 4))
      \<and> reply_body (respond True True (Some Gzip) [''app''] demo_fs
        \<lparr>req_filename = ''a.glb'', req_range = Some ''bytes=2-5''\<rparr>)
        = Some (Plain [2, 3, 4, 5])"
    using range_response [of "\<lparr>req_filename = ''a.glb'', req_range = Some ''bytes=2-5''\<rparr>"
        demo_fs "[''app'']" "[0, 1, 2, 3, 4, 5, 6, 7, 8, 9]" 2 "Some 5" 5 True True "Some Gzip"]
    by (simp add: demo_request_facts demo_range_facts num_str_def MAX_SAFE_INTEGER_def)
  have left_out:
    "reply_status (respond True True (Some Gzip) [''app''] demo_fs
        \<lparr>req_filename = ''a.glb'', req_range = Some ''bytes=7-''\<rparr>) = Some 206
      \<and> reply_header (respond True True (Some Gzip) [''app''] demo_fs
        \<lparr>req_filename = ''a.glb'', req_range = Some ''bytes=7-''\<rparr>) ''Content-Range''
        = Some (HStr ''bytes 7-9/10'')
      \<and> reply_body (respond True True (Some Gzip) [''app''] demo_fs
        \<lparr>req_filename = ''a.glb'', req_range = Some ''bytes=7-''\<rparr>) = Some (Plain [7, 8, 9])"
    using range_response [of "\<lparr>req_filename = ''a.glb'', req_range = Some ''bytes=7-''\<rparr>"
        demo_fs "[''app'']" "[0, 1, 2, 3, 4, 5, 6, 7, 8, 9]" 7 None 9 True True "Some Gzip"]
    by (simp add: demo_request_facts demo_range_facts num_str_def MAX_SAFE_INTEGER_def)
  have below:
    "reply_header (respond True True (Some Gzip) [''app''] demo_fs_large
        \<lparr>req_filename = ''big.glb'', req_range = Some ''bytes=2-1024''\<rparr>) ''Content-Length''
        = Some (HNum (Some 1023))
      \<and> reply_body (respond True True (Some Gzip) [''app''] demo_fs_large
        \<lparr>req_filename = ''big.glb'', req_range = Some ''bytes=2-1024''\<rparr>)
        = Some (Plain (replicate 1023 0))"
    using range_response [of "\<lparr>req_filename = ''big.glb'', req_range = Some ''bytes=2-1024''\<rparr>"
        demo_fs_large "[''app'']" "replicate 2048 0" 2 "Some 1024" 1024 True True "Some Gzip"]
    by (simp add: demo_request_facts demo_respond_facts demo_range_facts demo_large_file
        MAX_SAFE_INTEGER_def)
  have above:
    "reply_header (respond True True (Some Deflate) [''app''] demo_fs_large
        \<lparr>req_filename = ''big.glb'', req_range = Some ''bytes=0-1499''\<rparr>) ''Content-Length''
        = None
      \<and> reply_body (respond True True (Some Deflate) [''app''] demo_fs_large
        \<lparr>req_filename = ''big.glb'', req_range = Some ''bytes=0-1499''\<rparr>)
        = Some (Coded Deflate (replicate 1500 0))"
    using range_response [of "\<lparr>req_filename = ''big.glb'', req_range = Some ''bytes=0-1499''\<rparr>"
        demo_fs_large "[''app'']" "replicate 2048 0" 0 "Some 1499" 1499 True True
        "Some Deflate" Deflate]
    by (simp add: demo_request_facts demo_respond_facts demo_range_facts demo_large_file
        MAX_SAFE_INTEGER_def)
  from given left_out below above show ?thesis by simp
qed

text \<open>
  C1 as the claim states it fails where the start lies beyond the end: for
  \<open>Range: bytes=5-2\<close> on a file of ten bytes the handler calls \<open>writeHead\<close> with
  \<open>Content-Length: -2\<close>, and \<open>createReadStream\<close> raises; no body is sent. It also fails
  for a window of 1024 bytes when the compression module is installed and the client
  accepts gzip: for \<open>Range: bytes=0-1023\<close> on the file \<open>big.glb\<close> of 2048 bytes the
  response has no \<open>Content-Length\<close>, and its body is the gzip coding of the window.
\<close>

theorem range_response_counterexample:
  "serve_model [''app''] demo_fs \<lparr>req_filename = ''a.glb'', req_range = Some ''bytes=5-2''\<rparr>
     = HeadThenRaise 206
         [(''Cache-Control'', HStr ''public, max-age=2592000, immutable''),
          (''Content-Type'', HStr ''model/gltf-binary''),
          (''Accept-Ranges'', HStr ''bytes''),
          (''X-Optimized'', HStr ''false''),
          (''Content-Range'', HStr ''bytes 5-2/10''),
          (''Content-Length'', HNum (Some (- 2)))]
   \<and> reply_body (respond False True None [''app''] demo_fs
         \<lparr>req_filename = ''a.glb'', req_range = Some ''bytes=5-2''\<rparr>) = None
   \<and> reply_body (respond True True (Some Gzip) [''app''] demo_fs
         \<lparr>req_filename = ''a.glb'', req_range = Some ''bytes=5-2''\<rparr>) = None
   \<and> reply_status (respond True True (Some Gzip) [''app''] demo_fs_large
         \<lparr>req_filename = ''big.glb'', req_range = Some ''bytes=0-1023''\<rparr>) = Some 206
   \<and> reply_header (respond True True (Some Gzip) [''app''] demo_fs_large
         \<lparr>req_filename = ''big.glb'', req_range = Some ''bytes=0-1023''\<rparr>) ''Content-Length''
       = None
   \<and> reply_header (respond True True (Some Gzip) [''app''] demo_fs_large
         \<lparr>req_filename = ''big.glb'', req_range = Some ''bytes=0-1023''\<rparr>) ''Content-Encoding''
       = Some (HStr ''gzip'')
   \<and> reply_body (respond True True (Some Gzip) [''app''] demo_fs_large
         \<lparr>req_filename = ''big.glb'', req_range = Some ''bytes=0-1023''\<rparr>)
       = Some (Coded Gzip (replicate 1024 0))"
proof -
  have inverted:
    "serve_model [''app''] demo_fs \<lparr>req_filename = ''a.glb'', req_range = Some ''bytes=5-2''\<rparr>
     = HeadThenRaise 206
         [(''Cache-Control'', HStr ''public, max-age=2592000, immutable''),
          (''Content-Type'', HStr ''model/gltf-binary''),
          (''Accept-Ranges'', HStr ''bytes''),
          (''X-Optimized'', HStr ''false''),
          (''Content-Range'', HStr ''bytes 5-2/10''),
          (''Content-Length'', HNum (Some (- 2)))]"
    by code_simp
  have none: "reply_body (respond b f a [''app''] demo_fs
         \<lparr>req_filename = ''a.glb'', req_range = Some ''bytes=5-2''\<rparr>) = None" for b f a
    by (simp add: inverted respond_def compression_def direct_def reply_body_def
        split: option.splits)
  let ?req = "\<lparr>req_filename = ''big.glb'', req_range = Some ''bytes=0-1023''\<rparr>"
  let ?hs = "base_headers [''app''] demo_fs_large ''big.glb''
      @ [(''Content-Range'', HStr ''bytes 0-1023/2048''),
         (''Content-Length'', HNum (Some 1024))]"
  have large: "serve_model [''app''] demo_fs_large ?req
      = Response 206 ?hs (replicate 1024 0)"
    using serve_model_range [of ?req demo_fs_large "[''app'']" "replicate 2048 0" 0 "Some 1023"]
    by (simp add: demo_respond_facts demo_large_file num_str_def MAX_SAFE_INTEGER_def Let_def)
  have cl: "map_of ?hs ''Content-Length'' = Some (HNum (Some 1024))"
    by (simp add: header_lookup del: map_of_append)
  have coded: "respond True True (Some Gzip) [''app''] demo_fs_large ?req
      = Answer 206 (coded_head Gzip ?hs) (Coded Gzip (replicate 1024 0))"
    by (rule respond_coded [OF large cl]) simp
  have ce: "map_of (coded_head Gzip ?hs) ''Content-Encoding'' = Some (HStr ''gzip'')"
    by (simp add: coded_encoding coding_name_def del: map_of_append)
  from inverted none coded ce show ?thesis
    by (simp add: reply_status_def reply_header_def reply_body_def coded_head_lookup(1))
qed

text \<open>
  C2, as the code has it. A request the handler accepts that carries no \<open>Range\<close> header is
  answered with status 200. When the compression middleware leaves the body as it is
  (the module is not installed, or its filter refuses, or the client accepts no coding,
  or the file has fewer than 1024 bytes), \<open>Content-Length\<close> is the size of the selected
  file and the body is the whole file. Otherwise there is no \<open>Content-Length\<close>,
  \<open>Content-Encoding\<close> names the coding, and the body is the whole file in that coding.
\<close>

theorem full_file_response:
  assumes "is_model_name (req_filename req)"
    and "fs (filePath dirname fs (req_filename req)) = Some bytes"
    and "req_range req = None"
  shows "reply_status (respond installed filtered accepted dirname fs req) = Some 200
       \<and> (\<not> installed \<or> \<not> filtered \<or> accepted = None \<or> int (length bytes) < 1024 \<longrightarrow>
            reply_header (respond installed filtered accepted dirname fs req) ''Content-Length''
              = Some (HNum (Some (int (length bytes))))
            \<and> reply_body (respond installed filtered accepted dirname fs req) = Some (Plain bytes))
       \<and> (installed \<and> filtered \<and> accepted = Some c \<and> 1024 \<le> int (length bytes) \<longrightarrow>
            reply_header (respond installed filtered accepted dirname fs req) ''Content-Length'' = None
            \<and> reply_header (respond installed filtered accepted dirname fs req) ''Content-Encoding''
              = Some (HStr (coding_name c))
            \<and> reply_body (respond installed filtered accepted dirname fs req) = Some (Coded c bytes))"
proof -
  let ?hs = "base_headers dirname fs (req_filename req)
      @ [(''Content-Length'', HNum (Some (int (length bytes))))]"
  have out: "serve_model dirname fs req = Response 200 ?hs bytes"
    using assms(1-3) by (rule serve_model_no_range)
  have cl: "map_of ?hs ''Content-Length'' = Some (HNum (Some (int (length bytes))))"
    by (simp add: header_lookup del: map_of_append)
  have plain: "reply_status (respond installed filtered accepted dirname fs req) = Some 200
      \<and> reply_header (respond installed filtered accepted dirname fs req) ''Content-Length''
          = Some (HNum (Some (int (length bytes))))
      \<and> reply_body (respond installed filtered accepted dirname fs req) = Some (Plain bytes)"
    if p: "\<not> installed \<or> \<not> filtered \<or> accepted = None \<or> int (length bytes) < 1024"
  proof -
    note r = respond_plain [OF out cl p]
    from r(1) r(2) [of "''Content-Length''"] r(3) cl show ?thesis by simp
  qed
  have coded: "reply_status (respond installed filtered accepted dirname fs req) = Some 200
      \<and> reply_header (respond installed filtered accepted dirname fs req) ''Content-Length'' = None
      \<and> reply_header (respond installed filtered accepted dirname fs req) ''Content-Encoding''
          = Some (HStr (coding_name c'))
      \<and> reply_body (respond installed filtered accepted dirname fs req) = Some (Coded c' bytes)"
    if q: "installed \<and> filtered \<and> accepted = Some c' \<and> 1024 \<le> int (length bytes)" for c'
  proof -
    have "respond installed filtered accepted dirname fs req = Answer 200 (coded_head c' ?hs) (Coded c' bytes)"
      using q respond_coded [OF out cl, of c'] by simp
    then show ?thesis
      by (simp add: reply_status_def reply_header_def reply_body_def coded_head_lookup(1)
          coded_encoding del: map_of_append)
  qed
  have either: "(\<not> installed \<or> \<not> filtered \<or> accepted = None \<or> int (length bytes) < 1024)
      \<or> (\<exists>c'. installed \<and> filtered \<and> accepted = Some c' \<and> 1024 \<le> int (length bytes))"
    by (cases accepted) auto
  with plain coded have c1: "reply_status (respond installed filtered accepted dirname fs req) = Some 200"
    by blast
  have c2: "\<not> installed \<or> \<not> filtered \<or> accepted = None \<or> int (length bytes) < 1024 \<longrightarrow>
            reply_header (respond installed filtered accepted dirname fs req) ''Content-Length''
              = Some (HNum (Some (int (length bytes))))
            \<and> reply_body (respond installed filtered accepted dirname fs req) = Some (Plain bytes)"
    using plain by auto
  have c3: "installed \<and> filtered \<and> accepted = Some c \<and> 1024 \<le> int (length bytes) \<longrightarrow>
            reply_header (respond installed filtered accepted dirname fs req) ''Content-Length'' = None
            \<and> reply_header (respond installed filtered accepted dirname fs req) ''Content-Encoding''
              = Some (HStr (coding_name c))
            \<and> reply_body (respond installed filtered accepted dirname fs req) = Some (Coded c bytes)"
    using coded [of c] by auto
  from c1 c2 c3 show ?thesis by (intro conjI)
qed

text \<open>
  The file of ten bytes and the file of 1023 bytes, requested without a range by a
  client that accepts gzip with the compression module installed; the file of 2048
  bytes without the module; and that file with the module, for a client that accepts
  deflate.
\<close>

theorem full_file_response_witness:
  "reply_status (respond True True (Some Gzip) [''app''] demo_fs
       \<lparr>req_filename = ''a.glb'', req_range = None\<rparr>) = Some 200
   \<and> reply_header (respond True True (Some Gzip) [''app''] demo_fs
       \<lparr>req_filename = ''a.glb'', req_range = None\<rparr>) ''Content-Length'' = Some (HNum (Some 10))
   \<and> reply_body (respond True True (Some Gzip) [''app''] demo_fs
       \<lparr>req_filename = ''a.glb'', req_range = None\<rparr>)
       = Some (Plain [0, 1, 2, 3, 4, 5, 6, 7, 8, 9])
   \<and> reply_header (respond True True (Some Gzip) [''app''] demo_fs_large
       \<lparr>req_filename = ''less.glb'', req_range = None\<rparr>) ''Content-Length''
       = Some (HNum (Some 1023))
   \<and> reply_body (respond True True (Some Gzip) [''app''] demo_fs_large
       \<lparr>req_filename = ''less.glb'', req_range = None\<rparr>) = Some (Plain (replicate 1023 0))
   \<and> reply_header (respond False True (Some Gzip) [''app''] demo_fs_large
       \<lparr>req_filename = ''big.glb'', req_range = None\<rparr>) ''Content-Length''
       = Some (HNum (Some 2048))
   \<and> reply_body (respond False True (Some Gzip) [''app''] demo_fs_large
       \<lparr>req_filename = ''big.glb'', req_range = None\<rparr>) = Some (Plain (replicate 2048 0))
   \<and> reply_header (respond True True (Some Deflate) [''app''] demo_fs_large
       \<lparr>req_filename = ''big.glb'', req_range = None\<rparr>) ''Content-Length'' = None
   \<and> reply_header (respond True True (Some Deflate) [''app''] demo_fs_large
       \<lparr>req_filename = ''big.glb'', req_range = None\<rparr>) ''Content-Encoding''
       = Some (HStr ''deflate'')
   \<and> reply_body (respond True True (Some Deflate) [''app''] demo_fs_large
       \<lparr>req_filename = ''big.glb'', req_range = None\<rparr>)
       = Some (Coded Deflate (replicate 2048 0))"
  using full_file_response [of "\<lparr>req_filename = ''a.glb'', req_range = None\<rparr>"
      demo_fs "[''app'']" "[0, 1, 2, 3, 4, 5, 6, 7, 8, 9]" True True "Some Gzip"]
    full_file_response [of "\<lparr>req_filename = ''less.glb'', req_range = None\<rparr>"
      demo_fs_large "[''app'']" "replicate 1023 0" True True "Some Gzip"]
    full_file_response [of "\<lparr>req_filename = ''big.glb'', req_range = None\<rparr>"
      demo_fs_large "[''app'']" "replicate 2048 0" False True "Some Gzip"]
    full_file_response [of "\<lparr>req_filename = ''big.glb'', req_range = None\<rparr>"
      demo_fs_large "[''app'']" "replicate 2048 0" True True "Some Deflate" Deflate]
  by (simp add: demo_request_facts demo_respond_facts demo_large_file coding_name_def)

text \<open>
  C2 as the claim states it fails when the compression module is installed and the
  client accepts a coding: the file \<open>kib.glb\<close> of 1024 bytes, requested without a range
  by a client that accepts gzip, is answered without \<open>Content-Length\<close>, with
  \<open>Content-Encoding: gzip\<close>, and with the gzip coding of the file as body.
\<close>

theorem full_file_response_counterexample:
  "reply_status (respond True True (Some Gzip) [''app''] demo_fs_large
       \<lparr>req_filename = ''kib.glb'', req_range = None\<rparr>) = Some 200
   \<and> reply_header (respond True True (Some Gzip) [''app''] demo_fs_large
       \<lparr>req_filename = ''kib.glb'', req_range = None\<rparr>) ''Content-Length'' = None
   \<and> reply_header (respond True True (Some Gzip) [''app''] demo_fs_large
       \<lparr>req_filename = ''kib.glb'', req_range = None\<rparr>) ''Content-Encoding''
       = Some (HStr ''gzip'')
   \<and> reply_body (respond True True (Some Gzip) [''app''] demo_fs_large
       \<lparr>req_filename = ''kib.glb'', req_range = None\<rparr>)
       = Some (Coded Gzip (replicate 1024 0))
   \<and> reply_body (respond True True (Some Gzip) [''app''] demo_fs_large
       \<lparr>req_filename = ''kib.glb'', req_range = None\<rparr>)
       \<noteq> Some (Plain (replicate 1024 0))"
proof -
  let ?req = "\<lparr>req_filename = ''kib.glb'', req_range = None\<rparr>"
  let ?hs = "base_headers [''app''] demo_fs_large ''kib.glb''
      @ [(''Content-Length'', HNum (Some 1024))]"
  have whole: "serve_model [''app''] demo_fs_large ?req = Response 200 ?hs (replicate 1024 0)"
    using serve_model_no_range [of ?req demo_fs_large "[''app'']" "replicate 1024 0"]
    by (simp add: demo_respond_facts demo_large_file)
  have cl: "map_of ?hs ''Content-Length'' = Some (HNum (Some 1024))"
    by (simp add: header_lookup del: map_of_append)
  have coded: "respond True True (Some Gzip) [''app''] demo_fs_large ?req
      = Answer 200 (coded_head Gzip ?hs) (Coded Gzip (replicate 1024 0))"
    by (rule respond_coded [OF whole cl]) simp
  have ce: "map_of (coded_head Gzip ?hs) ''Content-Encoding'' = Some (HStr ''gzip'')"
    by (simp add: coded_encoding coding_name_def del: map_of_append)
  from coded ce show ?thesis
    by (simp add: reply_status_def reply_header_def reply_body_def coded_head_lookup(1))
qed

section \<open>The model-serving handler: which file is selected\<close>

lemma serve_model_next_iff:
  assumes "is_model_name (req_filename req)"
  shows "serve_model d fs req = Next \<longleftrightarrow> \<not> existsSync fs (filePath d fs (req_filename req))"
  using assms
  by (auto simp add: serve_model_def Let_def split: option.splits)

lemma serve_model_content_type:
  assumes "is_model_name (req_filename req)"
    and "existsSync fs (filePath d fs (req_filename req))"
  shows "header_of (serve_model d fs req) ''Content-Type''
           = Some (HStr (if endsWith (req_filename req) ''.glb'' then ''model/gltf-binary''
                         else ''model/gltf+json''))"
  using assms
  by (auto simp add: serve_model_def Let_def header_of_def header_lookup
      simp del: map_of_append split: option.splits)

lemma demo_selection_facts:
  "is_model_name ''b.glb''"
  "existsSync demo_fs_opt [''app'', ''public'', ''uploads'', ''optimized'', ''a.glb'']"
  "optimizedPath [''app''] ''a.glb'' = [''app'', ''public'', ''uploads'', ''optimized'', ''a.glb'']"
  "originalPath [''app''] ''a.glb'' = [''app'', ''public'', ''uploads'', ''a.glb'']"
  "demo_fs_opt [''app'', ''public'', ''uploads'', ''optimized'', ''a.glb''] = Some [7, 7, 7]"
  "\<not> existsSync demo_fs [''app'', ''public'', ''uploads'', ''optimized'', ''a.glb'']"
  "\<not> existsSync demo_fs (optimizedPath [''app''] ''b.glb'')"
  "\<not> existsSync demo_fs (originalPath [''app''] ''b.glb'')"
  by code_simp+

text \<open>
  C3. For a file name that passes the extension test, the selected file is the one under
  the optimised root when a file exists there and the one under the upload root otherwise;
  the handler calls \<open>next()\<close> exactly when neither exists; and the bytes it sends (here for
  a request without \<open>Range\<close>) are the bytes of the selected file.
\<close>

theorem variant_selection:
  assumes "is_model_name (req_filename req)"
  shows "(existsSync fs (optimizedPath dirname (req_filename req)) \<longrightarrow>
            filePath dirname fs (req_filename req) = optimizedPath dirname (req_filename req))
       \<and> (\<not> existsSync fs (optimizedPath dirname (req_filename req)) \<longrightarrow>
            filePath dirname fs (req_filename req) = originalPath dirname (req_filename req))
       \<and> (serve_model dirname fs req = Next \<longleftrightarrow>
            \<not> existsSync fs (optimizedPath dirname (req_filename req))
            \<and> \<not> existsSync fs (originalPath dirname (req_filename req)))
       \<and> (req_range req = None \<longrightarrow>
            body_of (serve_model dirname fs req) = fs (filePath dirname fs (req_filename req)))"
proof -
  have sel: "serve_model dirname fs req = Next \<longleftrightarrow>
      \<not> existsSync fs (optimizedPath dirname (req_filename req))
      \<and> \<not> existsSync fs (originalPath dirname (req_filename req))"
    using assms by (auto simp add: serve_model_next_iff filePath_def)
  have body: "body_of (serve_model dirname fs req) = fs (filePath dirname fs (req_filename req))"
    if "req_range req = None"
  proof (cases "fs (filePath dirname fs (req_filename req))")
    case None
    then have "serve_model dirname fs req = Next"
      using assms by (simp add: serve_model_next_iff existsSync_def)
    with None show ?thesis by (simp add: body_of_def)
  next
    case (Some bytes)
    with assms that show ?thesis
      by (simp add: serve_model_no_range body_of_def)
  qed
  from sel body show ?thesis by (simp add: filePath_def)
qed

text \<open>A model with an optimised variant, one without, and a name with no file at all.\<close>

theorem variant_selection_witness:
  "filePath [''app''] demo_fs_opt ''a.glb''
     = [''app'', ''public'', ''uploads'', ''optimized'', ''a.glb'']
   \<and> body_of (serve_model [''app''] demo_fs_opt \<lparr>req_filename = ''a.glb'', req_range = None\<rparr>)
       = Some [7, 7, 7]
   \<and> filePath [''app''] demo_fs ''a.glb'' = [''app'', ''public'', ''uploads'', ''a.glb'']
   \<and> body_of (serve_model [''app''] demo_fs \<lparr>req_filename = ''a.glb'', req_range = None\<rparr>)
       = Some [0, 1, 2, 3, 4, 5, 6, 7, 8, 9]
   \<and> serve_model [''app''] demo_fs \<lparr>req_filename = ''b.glb'', req_range = None\<rparr> = Next"
proof -
  have optimised:
    "filePath [''app''] demo_fs_opt ''a.glb''
       = [''app'', ''public'', ''uploads'', ''optimized'', ''a.glb'']
     \<and> body_of (serve_model [''app''] demo_fs_opt \<lparr>req_filename = ''a.glb'', req_range = None\<rparr>)
         = Some [7, 7, 7]"
    using variant_selection [of "\<lparr>req_filename = ''a.glb'', req_range = None\<rparr>"
        demo_fs_opt "[''app'']"]
    by (simp add: demo_request_facts demo_selection_facts)
  have original:
    "filePath [''app''] demo_fs ''a.glb'' = [''app'', ''public'', ''uploads'', ''a.glb'']
     \<and> body_of (serve_model [''app''] demo_fs \<lparr>req_filename = ''a.glb'', req_range = None\<rparr>)
         = Some [0, 1, 2, 3, 4, 5, 6, 7, 8, 9]"
    using variant_selection [of "\<lparr>req_filename = ''a.glb'', req_range = None\<rparr>"
        demo_fs "[''app'']"]
    by (simp add: demo_request_facts demo_selection_facts)
  have neither:
    "serve_model [''app''] demo_fs \<lparr>req_filename = ''b.glb'', req_range = None\<rparr> = Next"
    using variant_selection [of "\<lparr>req_filename = ''b.glb'', req_range = None\<rparr>"
        demo_fs "[''app'']"]
    by (simp add: demo_selection_facts)
  from optimised original neither show ?thesis by simp
qed

text \<open>
  C10. A file name that ends in \<open>.glb\<close> only up to the case of its letters passes the
  extension test, so the handler answers for it when the file exists, and the
  \<open>Content-Type\<close> it sets is \<open>model/gltf+json\<close>.
\<close>

theorem uppercase_glb_content_type:
  assumes "endsWith (map toLowerAscii (req_filename req)) ''.glb''"
    and "\<not> endsWith (req_filename req) ''.glb''"
    and "existsSync fs (filePath dirname fs (req_filename req))"
  shows "is_model_name (req_filename req)
       \<and> serve_model dirname fs req \<noteq> Next
       \<and> header_of (serve_model dirname fs req) ''Content-Type'' = Some (HStr ''model/gltf+json'')"
proof -
  have m: "is_model_name (req_filename req)"
    using assms(1) by (simp add: is_model_name_def)
  with assms show ?thesis
    by (simp add: serve_model_next_iff serve_model_content_type)
qed

lemma demo_upper_facts:
  "endsWith (map toLowerAscii (req_filename \<lparr>req_filename = ''A.GLB'', req_range = None\<rparr>)) ''.glb''"
  "\<not> endsWith (req_filename \<lparr>req_filename = ''A.GLB'', req_range = None\<rparr>) ''.glb''"
  "existsSync demo_fs_upper (filePath [''app''] demo_fs_upper
     (req_filename \<lparr>req_filename = ''A.GLB'', req_range = None\<rparr>))"
  by code_simp+

text \<open>The stored file \<open>A.GLB\<close>.\<close>

theorem uppercase_glb_content_type_witness:
  "is_model_name ''A.GLB''
   \<and> serve_model [''app''] demo_fs_upper \<lparr>req_filename = ''A.GLB'', req_range = None\<rparr> \<noteq> Next
   \<and> header_of (serve_model [''app''] demo_fs_upper
         \<lparr>req_filename = ''A.GLB'', req_range = None\<rparr>) ''Content-Type''
       = Some (HStr ''model/gltf+json'')"
  using uppercase_glb_content_type [of "\<lparr>req_filename = ''A.GLB'', req_range = None\<rparr>"
      demo_fs_upper "[''app'']", OF demo_upper_facts]
  by simp

section \<open>The model-serving handler: file names with path segments\<close>

lemma foldl_norm_plain:
  "list_all plain_seg segs \<Longrightarrow> foldl norm_step acc segs = acc @ segs"
  by (induction segs arbitrary: acc) (simp_all add: norm_step_def plain_seg_def)

lemma path_join_plain:
  assumes "list_all plain_seg dir" "plain_seg name" "CHR ''/'' \<notin> set name"
  shows "path_join dir name = dir @ [name]"
  using assms foldl_norm_plain [of "dir @ [name]" "[]"]
  by (simp add: path_join_def normalize_def split_on_notin)

lemma dirs_plain:
  assumes "list_all plain_seg dirname"
  shows "UPLOADS_DIR dirname = dirname @ [''public'', ''uploads'']"
    and "OPTIMIZED_DIR dirname = dirname @ [''public'', ''uploads'', ''optimized'']"
  using assms by (simp_all add: UPLOADS_DIR_def OPTIMIZED_DIR_def path_join_plain plain_seg_def)

lemma foldl_norm_no_parent:
  "''..'' \<notin> set segs \<Longrightarrow> foldl norm_step acc segs = acc @ filter plain_seg segs"
  by (induction segs arbitrary: acc) (auto simp add: norm_step_def plain_seg_def)

lemma path_join_no_parent:
  assumes "list_all plain_seg dir" "''..'' \<notin> set (split_on CHR ''/'' name)"
  shows "path_join dir name = dir @ filter plain_seg (split_on CHR ''/'' name)"
proof -
  have "path_join dir name = foldl norm_step (foldl norm_step [] dir) (split_on CHR ''/'' name)"
    by (simp add: path_join_def normalize_def)
  also have "foldl norm_step [] dir = dir"
    using assms(1) foldl_norm_plain [of dir "[]"] by simp
  finally show ?thesis using assms(2) by (simp add: foldl_norm_no_parent)
qed

lemma demo_name_facts:
  "''..'' \<notin> set (split_on CHR ''/'' ''a.glb'')"
  "filter plain_seg (split_on CHR ''/'' ''a.glb'') = [''a.glb'']"
  "''..'' \<notin> set (split_on CHR ''/'' ''sub/./a.glb'')"
  "filter plain_seg (split_on CHR ''/'' ''sub/./a.glb'') = [''sub'', ''a.glb'']"
  by code_simp+

text \<open>
  C4, as the code has it. The handler does not inspect the file name beyond the extension
  test. For a name none of whose segments is \<open>..\<close> (the server's directory being a
  normalised path), the two candidate paths are the optimised root and the upload root
  followed by the name's segments, so the selected file lies under the upload root, which
  holds the optimised root.
\<close>

theorem name_without_parent_stays_under_roots:
  assumes "list_all plain_seg dirname"
    and "''..'' \<notin> set (split_on CHR ''/'' f)"
  shows "optimizedPath dirname f = OPTIMIZED_DIR dirname @ filter plain_seg (split_on CHR ''/'' f)
       \<and> originalPath dirname f = UPLOADS_DIR dirname @ filter plain_seg (split_on CHR ''/'' f)
       \<and> under (OPTIMIZED_DIR dirname) (optimizedPath dirname f)
       \<and> under (UPLOADS_DIR dirname) (originalPath dirname f)
       \<and> under (UPLOADS_DIR dirname) (filePath dirname fs f)"
proof -
  have o: "optimizedPath dirname f = OPTIMIZED_DIR dirname @ filter plain_seg (split_on CHR ''/'' f)"
    using assms by (simp add: optimizedPath_def dirs_plain path_join_no_parent plain_seg_def)
  have u: "originalPath dirname f = UPLOADS_DIR dirname @ filter plain_seg (split_on CHR ''/'' f)"
    using assms by (simp add: originalPath_def dirs_plain path_join_no_parent plain_seg_def)
  from o u show ?thesis
    using assms(1) by (simp add: filePath_def under_def dirs_plain)
qed

text \<open>The names \<open>a.glb\<close> and \<open>sub/./a.glb\<close> on a server installed in \<open>/app\<close>.\<close>

theorem name_without_parent_stays_under_roots_witness:
  "optimizedPath [''app''] ''a.glb'' = OPTIMIZED_DIR [''app''] @ [''a.glb'']
   \<and> originalPath [''app''] ''sub/./a.glb'' = UPLOADS_DIR [''app''] @ [''sub'', ''a.glb'']
   \<and> under (UPLOADS_DIR [''app'']) (filePath [''app''] demo_fs_opt ''a.glb'')"
  using name_without_parent_stays_under_roots [of "[''app'']" "''a.glb''" demo_fs_opt]
    name_without_parent_stays_under_roots [of "[''app'']" "''sub/./a.glb''" demo_fs_opt]
  by (simp add: plain_seg_def demo_name_facts)

text \<open>
  C4 as the claim states it fails: the parameter \<open>../../data/x.glb\<close> (sent as
  \<open>..%2F..%2Fdata%2Fx.glb\<close>) passes the extension test, the selected file is
  \<open>/app/data/x.glb\<close>, outside both roots, and the handler serves it.
\<close>

theorem traversal_counterexample:
  "is_model_name ''../../data/x.glb''
   \<and> filePath [''app''] demo_fs_data ''../../data/x.glb'' = [''app'', ''data'', ''x.glb'']
   \<and> \<not> under (UPLOADS_DIR [''app'']) (filePath [''app''] demo_fs_data ''../../data/x.glb'')
   \<and> \<not> under (OPTIMIZED_DIR [''app'']) (filePath [''app''] demo_fs_data ''../../data/x.glb'')
   \<and> status_of (serve_model [''app''] demo_fs_data
         \<lparr>req_filename = ''../../data/x.glb'', req_range = None\<rparr>) = Some 200
   \<and> body_of (serve_model [''app''] demo_fs_data
         \<lparr>req_filename = ''../../data/x.glb'', req_range = None\<rparr>) = Some [1, 2, 3]"
  by code_simp

section \<open>The upload handler: numeric fields\<close>

lemma demo_parse_facts:
  "parseInt Utf8 [CHR 0xC2, CHR 0xA0, CHR ''9'', CHR ''5''] None = Some 95"
  "parseInt Utf8 ''0'' None = Some 0"
  "parseInt Utf8 ''high'' None = None"
  "parseInt Utf8 ''undefined'' None = None"
  "parseInt Utf8 ''12px'' None = Some 12"
  "parseInt Utf8 ''0x1F'' None = Some 31"
  "parseInt Utf8 '' -7'' None = Some (- 7)"
  "parseInt Latin1 ([CHR 0xA0] @ ''7'') (Some 10) = Some 7"
  "parseInt Utf8 ([CHR 0xA0] @ ''7'') None = None"
  by code_simp+


lemma upload_written:
  assumes "stored_file (f_model req) = Some mf" "mf \<noteq> ''''"
    and "endsWith mf ''.glb'' \<longrightarrow> existsSync (files st) (path_join (UPLOADS_DIR dirname) mf)"
  shows "fst (upload dirname pf Written req st)
           = UploadOk (up_id req)
               (up_protocol req @ ''://'' @ up_host req @ ''/view/'' @ up_id req)
               (endsWith mf ''.glb''
                \<and> statSize (files st) (path_join (UPLOADS_DIR dirname) mf) \<le> 200 * (1024 * 1024))"
    and "fst (getDB (snd (upload dirname pf Written req st))) (up_id req)
           = Some (new_record pf req mf)"
  using assms
  by (cases "dbCache st"; simp add: upload_def truthy_def getDB_def saveDB_def Let_def)+

text \<open>
  C6, as the code has it. The form fields are texts or missing, and the four statistics,
  where they read as integers, lie in the range of the safe integers. \<open>modelY\<close> is the
  number \<open>parseFloat\<close> reads and 0 when it reads none. \<open>characterHeight\<close> and the four
  statistics are the number read when it is not zero, and the default (170, 80) when
  nothing is read or zero is read; so a statistic sent as the decimal text of \<open>n\<close> is
  stored as \<open>n\<close>, or as 80 when \<open>n\<close> is 0, and one not sent is stored as 80. No text in
  these fields makes the upload fail: with a model file stored and the store written,
  the reply is \<open>{id, url}\<close> and the store holds the new record.
\<close>

theorem upload_numeric_fields:
  assumes "safe_integer (parseInt Utf8 (to_text (b_statStrength req)) None)"
    and "safe_integer (parseInt Utf8 (to_text (b_statStrategy req)) None)"
    and "safe_integer (parseInt Utf8 (to_text (b_statLeadership req)) None)"
    and "safe_integer (parseInt Utf8 (to_text (b_statDefense req)) None)"
  shows "a_modelY (new_record pf req mf)
     = (if float_field pf (b_modelY req) = NaN then Num 0 else float_field pf (b_modelY req))
   \<and> a_characterHeight (new_record pf req mf)
     = (if float_field pf (b_characterHeight req) = NaN
           \<or> float_field pf (b_characterHeight req) = Num 0
        then Num 170 else float_field pf (b_characterHeight req))
   \<and> a_strength (new_record pf req mf)
     = (case parseInt Utf8 (to_text (b_statStrength req)) None of
          Some n \<Rightarrow> if n = 0 then 80 else n | None \<Rightarrow> 80)
   \<and> a_strategy (new_record pf req mf)
     = (case parseInt Utf8 (to_text (b_statStrategy req)) None of
          Some n \<Rightarrow> if n = 0 then 80 else n | None \<Rightarrow> 80)
   \<and> a_leadership (new_record pf req mf)
     = (case parseInt Utf8 (to_text (b_statLeadership req)) None of
          Some n \<Rightarrow> if n = 0 then 80 else n | None \<Rightarrow> 80)
   \<and> a_defense (new_record pf req mf)
     = (case parseInt Utf8 (to_text (b_statDefense req)) None of
          Some n \<Rightarrow> if n = 0 then 80 else n | None \<Rightarrow> 80)
   \<and> (\<forall>n. b_statStrength req = Some (nat_str n) \<longrightarrow>
          a_strength (new_record pf req mf) = (if n = 0 then 80 else int n))
   \<and> (\<forall>n. b_statStrategy req = Some (nat_str n) \<longrightarrow>
          a_strategy (new_record pf req mf) = (if n = 0 then 80 else int n))
   \<and> (\<forall>n. b_statLeadership req = Some (nat_str n) \<longrightarrow>
          a_leadership (new_record pf req mf) = (if n = 0 then 80 else int n))
   \<and> (\<forall>n. b_statDefense req = Some (nat_str n) \<longrightarrow>
          a_defense (new_record pf req mf) = (if n = 0 then 80 else int n))
   \<and> (b_statStrength req = None \<longrightarrow> a_strength (new_record pf req mf) = 80)
   \<and> (b_statStrategy req = None \<longrightarrow> a_strategy (new_record pf req mf) = 80)
   \<and> (b_statLeadership req = None \<longrightarrow> a_leadership (new_record pf req mf) = 80)
   \<and> (b_statDefense req = None \<longrightarrow> a_defense (new_record pf req mf) = 80)
   \<and> (stored_file (f_model req) = Some mf \<and> mf \<noteq> ''''
        \<and> (endsWith mf ''.glb'' \<longrightarrow>
             existsSync (files st) (path_join (UPLOADS_DIR dirname) mf)) \<longrightarrow>
        (\<exists>spawned. fst (upload dirname pf Written req st)
            = UploadOk (up_id req)
                (up_protocol req @ ''://'' @ up_host req @ ''/view/'' @ up_id req) spawned)
        \<and> fst (getDB (snd (upload dirname pf Written req st))) (up_id req)
            = Some (new_record pf req mf))"
proof -
  have y: "a_modelY (new_record pf req mf)
     = (if float_field pf (b_modelY req) = NaN then Num 0 else float_field pf (b_modelY req))"
    by (simp add: new_record_def or_num_def split: jsnum.splits)
  have h: "a_characterHeight (new_record pf req mf)
     = (if float_field pf (b_characterHeight req) = NaN
           \<or> float_field pf (b_characterHeight req) = Num 0
        then Num 170 else float_field pf (b_characterHeight req))"
    by (simp add: new_record_def or_num_def split: jsnum.splits)
  have stat: "or_int v 80 = (case v of Some n \<Rightarrow> if n = 0 then 80 else n | None \<Rightarrow> 80)" for v
    by (simp add: or_int_def split: option.splits)
  have s: "a_strength (new_record pf req mf)
             = or_int (parseInt Utf8 (to_text (b_statStrength req)) None) 80"
    "a_strategy (new_record pf req mf)
       = or_int (parseInt Utf8 (to_text (b_statStrategy req)) None) 80"
    "a_leadership (new_record pf req mf)
       = or_int (parseInt Utf8 (to_text (b_statLeadership req)) None) 80"
    "a_defense (new_record pf req mf)
       = or_int (parseInt Utf8 (to_text (b_statDefense req)) None) 80"
    by (simp_all add: new_record_def)
  have dec: "or_int (parseInt Utf8 (to_text (Some (nat_str n))) None) 80
      = (if n = 0 then 80 else int n)" for n
    by (simp add: to_text_def parseInt_nat_str or_int_def)
  have mis: "or_int (parseInt Utf8 (to_text None) None) 80 = 80"
    using demo_parse_facts(4) by (simp add: to_text_def or_int_def)
  have d: "\<forall>n. b_statStrength req = Some (nat_str n) \<longrightarrow>
          a_strength (new_record pf req mf) = (if n = 0 then 80 else int n)"
    "\<forall>n. b_statStrategy req = Some (nat_str n) \<longrightarrow>
          a_strategy (new_record pf req mf) = (if n = 0 then 80 else int n)"
    "\<forall>n. b_statLeadership req = Some (nat_str n) \<longrightarrow>
          a_leadership (new_record pf req mf) = (if n = 0 then 80 else int n)"
    "\<forall>n. b_statDefense req = Some (nat_str n) \<longrightarrow>
          a_defense (new_record pf req mf) = (if n = 0 then 80 else int n)"
    using dec by (simp_all add: s)
  have m: "b_statStrength req = None \<longrightarrow> a_strength (new_record pf req mf) = 80"
    "b_statStrategy req = None \<longrightarrow> a_strategy (new_record pf req mf) = 80"
    "b_statLeadership req = None \<longrightarrow> a_leadership (new_record pf req mf) = 80"
    "b_statDefense req = None \<longrightarrow> a_defense (new_record pf req mf) = 80"
    using mis by (simp_all add: s)
  have w: "stored_file (f_model req) = Some mf \<and> mf \<noteq> ''''
        \<and> (endsWith mf ''.glb'' \<longrightarrow>
             existsSync (files st) (path_join (UPLOADS_DIR dirname) mf)) \<longrightarrow>
        (\<exists>spawned. fst (upload dirname pf Written req st)
            = UploadOk (up_id req)
                (up_protocol req @ ''://'' @ up_host req @ ''/view/'' @ up_id req) spawned)
        \<and> fst (getDB (snd (upload dirname pf Written req st))) (up_id req)
            = Some (new_record pf req mf)"
    using upload_written [of req mf st dirname pf] by auto
  have st4: "a_strength (new_record pf req mf)
     = (case parseInt Utf8 (to_text (b_statStrength req)) None of
          Some n \<Rightarrow> if n = 0 then 80 else n | None \<Rightarrow> 80)"
    "a_strategy (new_record pf req mf)
     = (case parseInt Utf8 (to_text (b_statStrategy req)) None of
          Some n \<Rightarrow> if n = 0 then 80 else n | None \<Rightarrow> 80)"
    "a_leadership (new_record pf req mf)
     = (case parseInt Utf8 (to_text (b_statLeadership req)) None of
          Some n \<Rightarrow> if n = 0 then 80 else n | None \<Rightarrow> 80)"
    "a_defense (new_record pf req mf)
     = (case parseInt Utf8 (to_text (b_statDefense req)) None of
          Some n \<Rightarrow> if n = 0 then 80 else n | None \<Rightarrow> 80)"
    by (simp_all only: s stat)
  from y h st4 d m w show ?thesis by (intro conjI)
qed


lemma demo_upload_facts:
  "stored_file (f_model demo_upload) = Some ''Ab3dEf9h-model.gltf''"
  "\<not> endsWith ''Ab3dEf9h-model.gltf'' ''.glb''"
  "to_text (b_statStrength demo_upload) = [CHR 0xC2, CHR 0xA0, CHR ''9'', CHR ''5'']"
  "to_text (b_statStrategy demo_upload) = ''0''"
  "to_text (b_statLeadership demo_upload) = ''high''"
  "to_text (b_statDefense demo_upload) = ''undefined''"
  by code_simp+

lemma demo_safe_facts:
  "safe_integer (parseInt Utf8 (to_text (b_statStrength demo_upload)) None)"
  "safe_integer (parseInt Utf8 (to_text (b_statStrategy demo_upload)) None)"
  "safe_integer (parseInt Utf8 (to_text (b_statLeadership demo_upload)) None)"
  "safe_integer (parseInt Utf8 (to_text (b_statDefense demo_upload)) None)"
  by code_simp+

lemma demo_float_facts:
  "float_field demo_parseFloat (b_modelY demo_upload) = NaN"
  "float_field demo_parseFloat (b_characterHeight demo_upload) = Num 180"
  "up_id demo_upload = ''Ab3dEf9h''" "up_protocol demo_upload = ''http''"
  "up_host demo_upload = ''localhost:3000''"
  by (simp_all add: float_field_def demo_parseFloat_def demo_upload_def)

text \<open>
  A form with \<open>modelY=abc\<close>, \<open>characterHeight=180\<close>, \<open>statStrength\<close> a no-break space
  followed by \<open>95\<close>, \<open>statLeadership=high\<close> and no \<open>statDefense\<close>.
\<close>

theorem upload_numeric_fields_witness:
  "a_modelY (new_record demo_parseFloat demo_upload ''Ab3dEf9h-model.gltf'') = Num 0
   \<and> a_characterHeight (new_record demo_parseFloat demo_upload ''Ab3dEf9h-model.gltf'') = Num 180
   \<and> a_strength (new_record demo_parseFloat demo_upload ''Ab3dEf9h-model.gltf'') = 95
   \<and> a_leadership (new_record demo_parseFloat demo_upload ''Ab3dEf9h-model.gltf'') = 80
   \<and> a_defense (new_record demo_parseFloat demo_upload ''Ab3dEf9h-model.gltf'') = 80
   \<and> (\<exists>spawned. fst (upload [''app''] demo_parseFloat Written demo_upload demo_state)
         = UploadOk ''Ab3dEf9h'' ''http://localhost:3000/view/Ab3dEf9h'' spawned)
   \<and> fst (getDB (snd (upload [''app''] demo_parseFloat Written demo_upload demo_state)))
         ''Ab3dEf9h''
       = Some (new_record demo_parseFloat demo_upload ''Ab3dEf9h-model.gltf'')"
  using upload_numeric_fields [of demo_upload demo_parseFloat "''Ab3dEf9h-model.gltf''"
      demo_state "[''app'']", OF demo_safe_facts]
  by (simp add: demo_upload_facts demo_float_facts demo_parse_facts)

text \<open>
  C6 as the claim states it fails for the numeric input \<open>0\<close>: \<open>statStrategy=0\<close> is read
  as the number 0 and the record holds the default 80.
\<close>

theorem upload_zero_counterexample:
  "b_statStrategy demo_upload = Some ''0''
   \<and> parseInt Utf8 ''0'' None = Some 0
   \<and> a_strategy (new_record demo_parseFloat demo_upload ''Ab3dEf9h-model.gltf'') = 80"
  by (simp add: demo_parse_facts new_record_def or_int_def demo_upload_facts)
     (simp add: demo_upload_def)

section \<open>The metadata store: writes\<close>

text \<open>
  C5, as the code has it. After a write that succeeds, \<open>getDB\<close> returns the written
  mapping from the cache and the file holds it. \<open>saveDB\<close> assigns the cache before it
  writes the file, so after a write that raises, \<open>getDB\<close> returns the new mapping as
  well; the file holds whatever the failed write left.
\<close>

theorem saveDB_cache:
  "fst (saveDB db Written st) = Returned
   \<and> fst (getDB (snd (saveDB db Written st))) = db
   \<and> snd (getDB (snd (saveDB db Written st))) = snd (saveDB db Written st)
   \<and> dbFile (snd (saveDB db Written st)) = db
   \<and> fst (saveDB db (WriteFailed left) st) = Threw
   \<and> fst (getDB (snd (saveDB db (WriteFailed left) st))) = db
   \<and> dbFile (snd (saveDB db (WriteFailed left) st)) = left"
  by (simp add: saveDB_def getDB_def)

text \<open>
  C5 as the claim states it fails: the store is empty, the write of a one-record mapping
  raises and leaves the file as it was, and the cache then holds the record.
\<close>

theorem failed_write_counterexample:
  "fst (getDB demo_state) ''Ab3dEf9h'' = None
   \<and> dbFile demo_state ''Ab3dEf9h'' = None
   \<and> fst (saveDB [''Ab3dEf9h'' \<mapsto> demo_asset ''/uploads/a.glb''] (WriteFailed Map.empty)
           demo_state) = Threw
   \<and> fst (getDB (snd (saveDB [''Ab3dEf9h'' \<mapsto> demo_asset ''/uploads/a.glb'']
                          (WriteFailed Map.empty) demo_state))) ''Ab3dEf9h''
       = Some (demo_asset ''/uploads/a.glb'')"
  by (simp add: saveDB_def getDB_def demo_state_def parsed_def)

section \<open>The asset endpoint\<close>

lemma model_info_eq:
  "mf \<noteq> '''' \<Longrightarrow> model_info dirname fs (Some mf) =
     (if endsWith mf ''.glb'' \<and> existsSync fs (optimizedPath dirname mf)
      then (statSize fs (optimizedPath dirname mf), True)
      else (statSize fs (originalPath dirname mf), False))"
  by (auto simp add: model_info_def optimizedPath_def originalPath_def statSize_def
      existsSync_def)

lemma endsWith_nonempty: "endsWith mf ''.glb'' \<Longrightarrow> mf \<noteq> ''''"
  by (auto simp add: endsWith_def)

lemma get_asset_eq:
  "fst (get_asset dirname ident st) =
     (case db_get (fst (getDB st)) ident of
        Undefined \<Rightarrow> AssetError 404 ''Not found''
      | Inherited \<Rightarrow> AssetJson None 0 False False
      | Own a \<Rightarrow> AssetJson (Some a)
                   (fst (model_info dirname (files st) (modelFile_of a)))
                   (snd (model_info dirname (files st) (modelFile_of a)))
                   (snd (model_info dirname (files st) (modelFile_of a))))"
  by (cases "dbCache st")
     (simp_all add: get_asset_def getDB_def Let_def split: lookup.splits prod.splits)

text \<open>
  C7, as the code has it. An identifier that is neither a key of the store nor a name
  found on \<open>Object.prototype\<close> is answered 404 with an error. A stored record is answered
  with the record and the derived fields: when the model's file name ends in \<open>.glb\<close> and
  an optimised variant exists, \<open>isOptimized\<close> is true and \<open>modelSize\<close> is the variant's
  size; otherwise \<open>isOptimized\<close> is false and \<open>modelSize\<close> is the size of the upload (0
  when it is missing or the record names no file). For a name ending in \<open>.glb\<close> these
  are the size of the file the model-serving handler selects and whether the optimised
  variant exists.
\<close>

theorem asset_lookup:
  "(fst (getDB st) ident = None \<and> ident \<notin> set object_prototype_names \<longrightarrow>
      fst (get_asset dirname ident st) = AssetError 404 ''Not found'')
   \<and> (fst (getDB st) ident = Some a \<and> modelFile_of a = Some mf \<and> mf \<noteq> '''' \<longrightarrow>
      fst (get_asset dirname ident st)
        = (if endsWith mf ''.glb'' \<and> existsSync (files st) (optimizedPath dirname mf)
           then AssetJson (Some a) (statSize (files st) (optimizedPath dirname mf)) True True
           else AssetJson (Some a) (statSize (files st) (originalPath dirname mf)) False False))
   \<and> (fst (getDB st) ident = Some a
        \<and> (modelFile_of a = None \<or> modelFile_of a = Some '''') \<longrightarrow>
      fst (get_asset dirname ident st) = AssetJson (Some a) 0 False False)
   \<and> (fst (getDB st) ident = Some a \<and> modelFile_of a = Some mf \<and> endsWith mf ''.glb'' \<longrightarrow>
      fst (get_asset dirname ident st)
        = AssetJson (Some a) (statSize (files st) (filePath dirname (files st) mf))
            (existsSync (files st) (optimizedPath dirname mf))
            (existsSync (files st) (optimizedPath dirname mf)))"
proof -
  have missing: "fst (get_asset dirname ident st) = AssetError 404 ''Not found''"
    if "fst (getDB st) ident = None" "ident \<notin> set object_prototype_names"
    using that by (simp add: get_asset_eq db_get_def)
  have named: "fst (get_asset dirname ident st)
        = (if endsWith mf ''.glb'' \<and> existsSync (files st) (optimizedPath dirname mf)
           then AssetJson (Some a) (statSize (files st) (optimizedPath dirname mf)) True True
           else AssetJson (Some a) (statSize (files st) (originalPath dirname mf)) False False)"
    if "fst (getDB st) ident = Some a" "modelFile_of a = Some mf" "mf \<noteq> ''''"
    using that by (simp add: get_asset_eq db_get_def model_info_eq)
  have unnamed: "fst (get_asset dirname ident st) = AssetJson (Some a) 0 False False"
    if "fst (getDB st) ident = Some a" "modelFile_of a = None \<or> modelFile_of a = Some ''''"
    using that by (auto simp add: get_asset_eq db_get_def model_info_def)
  have glb: "fst (get_asset dirname ident st)
        = AssetJson (Some a) (statSize (files st) (filePath dirname (files st) mf))
            (existsSync (files st) (optimizedPath dirname mf))
            (existsSync (files st) (optimizedPath dirname mf))"
    if "fst (getDB st) ident = Some a" "modelFile_of a = Some mf" "endsWith mf ''.glb''"
    using that named [OF that(1,2) endsWith_nonempty [OF that(3)]]
    by (simp add: filePath_def)
  from missing named unnamed glb show ?thesis by blast
qed


lemma demo_asset_facts:
  "modelFile_of (demo_asset ''/uploads/a.glb'') = Some ''a.glb''"
  "modelFile_of (demo_asset ''/uploads/m.gltf'') = Some ''m.gltf''"
  "endsWith ''a.glb'' ''.glb''"
  "\<not> endsWith ''m.gltf'' ''.glb''"
  "''nothing'' \<notin> set object_prototype_names"
  "''constructor'' \<in> set object_prototype_names"
  "existsSync demo_fs_opt (optimizedPath [''app''] ''a.glb'')"
  "statSize demo_fs_opt (optimizedPath [''app''] ''a.glb'') = 3"
  "existsSync demo_fs_gltf (optimizedPath [''app''] ''m.gltf'')"
  "statSize demo_fs_gltf (originalPath [''app''] ''m.gltf'') = 10"
  "body_of (serve_model [''app''] demo_fs_gltf \<lparr>req_filename = ''m.gltf'', req_range = None\<rparr>)
     = Some [7, 7, 7]"
  by code_simp+

lemma read_back_demo: "read_back (demo_asset m) = demo_asset m"
  by (simp add: read_back_def demo_asset_def from_json_def)

lemma demo_state_facts:
  "fst (getDB demo_state_glb) ''nothing'' = None"
  "fst (getDB demo_state_glb) ''Ab3dEf9h'' = Some (demo_asset ''/uploads/a.glb'')"
  "files demo_state_glb = demo_fs_opt"
  "fst (getDB demo_state_gltf) ''Ab3dEf9h'' = Some (demo_asset ''/uploads/m.gltf'')"
  "fst (getDB demo_state_gltf) ''constructor'' = None"
  "files demo_state_gltf = demo_fs_gltf"
  by (simp_all add: getDB_def demo_state_glb_def demo_state_gltf_def parsed_def read_back_demo)

text \<open>An unknown identifier, and a stored \<open>.glb\<close> model with an optimised variant of three bytes.\<close>

theorem asset_lookup_witness:
  "fst (get_asset [''app''] ''nothing'' demo_state_glb) = AssetError 404 ''Not found''
   \<and> fst (get_asset [''app''] ''Ab3dEf9h'' demo_state_glb)
       = AssetJson (Some (demo_asset ''/uploads/a.glb'')) 3 True True"
  using asset_lookup [where st = demo_state_glb and ident = "''nothing''"
        and dirname = "[''app'']"]
    asset_lookup [where st = demo_state_glb and ident = "''Ab3dEf9h''"
        and dirname = "[''app'']" and a = "demo_asset ''/uploads/a.glb''" and mf = "''a.glb''"]
  by (simp add: demo_asset_facts demo_state_facts)

text \<open>
  C7 as the claim states it fails for a \<open>.gltf\<close> model whose optimised variant exists:
  the endpoint reports the size of the upload and \<open>isOptimized\<close> false, while the
  model-serving handler sends the optimised file. It also fails for the identifier
  \<open>constructor\<close>, which the store does not contain and which is answered 200.
\<close>

theorem asset_lookup_counterexample:
  "fst (getDB demo_state_gltf) ''Ab3dEf9h'' = Some (demo_asset ''/uploads/m.gltf'')
   \<and> existsSync (files demo_state_gltf) (optimizedPath [''app''] ''m.gltf'')
   \<and> fst (get_asset [''app''] ''Ab3dEf9h'' demo_state_gltf)
       = AssetJson (Some (demo_asset ''/uploads/m.gltf'')) 10 False False
   \<and> body_of (serve_model [''app''] (files demo_state_gltf)
         \<lparr>req_filename = ''m.gltf'', req_range = None\<rparr>) = Some [7, 7, 7]
   \<and> fst (getDB demo_state_gltf) ''constructor'' = None
   \<and> fst (get_asset [''app''] ''constructor'' demo_state_gltf) = AssetJson None 0 False False"
  by (simp add: get_asset_eq db_get_def model_info_eq demo_asset_facts demo_state_facts)

section \<open>The distance on the sphere\<close>

lemma sin_sq_swap: "sin ((x - y) * pi / 360) * sin ((x - y) * pi / 360)
     = sin ((y - x) * pi / 360) * sin ((y - x) * pi / 360)" for x y :: real
proof -
  have "x - y = - (y - x)" by simp
  then have "(x - y) * pi / 360 = - ((y - x) * pi / 360)"
    by (simp only: mult_minus_left minus_divide_left)
  then have "sin ((x - y) * pi / 360) = - sin ((y - x) * pi / 360)"
    by (simp only: sin_minus)
  then show ?thesis by simp
qed

text \<open>
  C9. \<open>haversineDistance\<close> gives the same result when the two points are exchanged.
\<close>

theorem haversine_symmetric:
  "haversineDistance lat1 lon1 lat2 lon2 = haversineDistance lat2 lon2 lat1 lon1"
proof (cases lat1; cases lon1; cases lat2; cases lon2)
  fix a b c d
  assume n: "lat1 = Num a" "lon1 = Num b" "lat2 = Num c" "lon2 = Num d"
  have e: "sin ((c - a) * pi / 360) * sin ((c - a) * pi / 360)
             + cos (a * pi / 180) * cos (c * pi / 180) * sin ((d - b) * pi / 360)
                 * sin ((d - b) * pi / 360)
         = sin ((a - c) * pi / 360) * sin ((a - c) * pi / 360)
             + cos (c * pi / 180) * cos (a * pi / 180) * sin ((b - d) * pi / 360)
                 * sin ((b - d) * pi / 360)"
    using sin_sq_swap [of c a] sin_sq_swap [of d b] by (simp add: mult.assoc mult.left_commute)
  show ?thesis
    unfolding n haversineDistance_def Let_def
    by (simp add: js_div_def js_mul_def js_sub_def js_add_def js_sin_def js_cos_def e)
qed (simp_all add: haversineDistance_def Let_def js_div_def js_mul_def js_sub_def js_add_def
      js_sin_def js_cos_def js_sqrt_def js_atan2_def)


text \<open>The value under the square roots lies between 0 and 1, so no root is NaN.\<close>

lemma half_angle_sq: "(sin (w / 2))\<^sup>2 = (1 - cos w) / 2" for w :: real
  using cos_double_sin [of "w / 2"] by simp

lemma abs_mult_le_squares: "\<bar>x * y\<bar> \<le> (x\<^sup>2 + y\<^sup>2) / 2" for x y :: real
proof -
  have "2 * \<bar>x\<bar> * \<bar>y\<bar> \<le> \<bar>x\<bar>\<^sup>2 + \<bar>y\<bar>\<^sup>2"
    by (rule sum_squares_bound)
  then show ?thesis by (simp add: abs_mult)
qed

lemma prod_abs_bound:
  fixes cp cq sp sq :: real
  assumes "sp\<^sup>2 + cp\<^sup>2 = 1" "sq\<^sup>2 + cq\<^sup>2 = 1"
  shows "\<bar>cp * cq\<bar> + \<bar>sp * sq\<bar> \<le> 1"
proof -
  have "\<bar>cp * cq\<bar> + \<bar>sp * sq\<bar> \<le> (cp\<^sup>2 + cq\<^sup>2) / 2 + (sp\<^sup>2 + sq\<^sup>2) / 2"
    using abs_mult_le_squares [of cp cq] abs_mult_le_squares [of sp sq] by (rule add_mono)
  also have "\<dots> = ((sp\<^sup>2 + cp\<^sup>2) + (sq\<^sup>2 + cq\<^sup>2)) / 2"
    by (simp add: field_simps)
  also have "\<dots> = 1" by (simp only: assms) simp
  finally show ?thesis .
qed

lemma hav_core_bounds:
  fixes u v t :: real
  assumes "\<bar>u\<bar> + \<bar>v\<bar> \<le> 1" "0 \<le> t" "t \<le> 1"
  shows "0 \<le> (1 - u - v) / 2 + u * t" "(1 - u - v) / 2 + u * t \<le> 1"
proof -
  define w where "w = u * (2 * t - 1)"
  have "\<bar>2 * t - 1\<bar> \<le> 1" using assms(2,3) by linarith
  then have "\<bar>u\<bar> * \<bar>2 * t - 1\<bar> \<le> \<bar>u\<bar>"
    by (simp add: mult_left_le)
  then have b: "\<bar>w\<bar> \<le> \<bar>u\<bar>" by (simp add: w_def abs_mult)
  have e: "(1 - u - v) / 2 + u * t = (1 - v + w) / 2"
    by (simp add: w_def field_simps)
  show "0 \<le> (1 - u - v) / 2 + u * t" unfolding e using b assms(1) by argo
  show "(1 - u - v) / 2 + u * t \<le> 1" unfolding e using b assms(1) by argo
qed

lemma hav_a_bounds:
  fixes p q y :: real
  shows "0 \<le> sin ((q - p) / 2) * sin ((q - p) / 2) + cos p * cos q * sin y * sin y"
    and "sin ((q - p) / 2) * sin ((q - p) / 2) + cos p * cos q * sin y * sin y \<le> 1"
proof -
  have t: "0 \<le> (sin y)\<^sup>2" "(sin y)\<^sup>2 \<le> 1"
    by (simp_all add: abs_square_le_1)
  have uv: "\<bar>cos p * cos q\<bar> + \<bar>sin p * sin q\<bar> \<le> 1"
    by (rule prod_abs_bound) simp_all
  have e: "sin ((q - p) / 2) * sin ((q - p) / 2) + cos p * cos q * sin y * sin y
         = (1 - cos p * cos q - sin p * sin q) / 2 + cos p * cos q * (sin y)\<^sup>2"
    using half_angle_sq [of "q - p"]
    by (simp add: cos_diff power2_eq_square algebra_simps)
  show "0 \<le> sin ((q - p) / 2) * sin ((q - p) / 2) + cos p * cos q * sin y * sin y"
    unfolding e by (rule hav_core_bounds(1) [OF uv t])
  show "sin ((q - p) / 2) * sin ((q - p) / 2) + cos p * cos q * sin y * sin y \<le> 1"
    unfolding e by (rule hav_core_bounds(2) [OF uv t])
qed


lemma hav_a_range: "0 \<le> hav_a a b c d" "hav_a a b c d \<le> 1"
proof -
  have e: "(c - a) * pi / 180 / 2 = (c * pi / 180 - a * pi / 180) / 2"
    by (simp add: field_simps)
  show "0 \<le> hav_a a b c d"
    unfolding hav_a_def e by (rule hav_a_bounds(1))
  show "hav_a a b c d \<le> 1"
    unfolding hav_a_def e by (rule hav_a_bounds(2))
qed

lemma haversine_num:
  "haversineDistance (Num a) (Num b) (Num c) (Num d)
     = Num (6371000 * 2 * atan2 (sqrt (hav_a a b c d)) (sqrt (1 - hav_a a b c d)))"
proof -
  have "haversineDistance (Num a) (Num b) (Num c) (Num d)
     = js_mul (js_mul (Num 6371000) (Num 2))
         (js_atan2 (js_sqrt (Num (hav_a a b c d))) (js_sqrt (js_sub (Num 1) (Num (hav_a a b c d)))))"
    by (simp add: haversineDistance_def Let_def js_div_def js_mul_def js_sub_def js_add_def
        js_sin_def js_cos_def hav_a_def)
  also have "\<dots> = Num (6371000 * 2 * atan2 (sqrt (hav_a a b c d)) (sqrt (1 - hav_a a b c d)))"
    using hav_a_range [of a b c d]
    by (simp add: js_mul_def js_sub_def js_sqrt_def js_atan2_def)
  finally show ?thesis .
qed

section \<open>The nearby endpoint\<close>

lemma mset_insert_cmp: "mset (insert_cmp c x ys) = add_mset x (mset ys)"
  by (induction ys) simp_all

lemma mset_sort_cmp: "mset (sort_cmp c xs) = mset xs"
  by (induction xs) (simp_all add: sort_cmp_def mset_insert_cmp)

lemma set_sort_cmp: "set (sort_cmp c xs) = set xs"
  using mset_sort_cmp [of c xs] by (rule mset_eq_setD)

lemma set_insert_cmp: "set (insert_cmp c x ys) = insert x (set ys)"
  using mset_insert_cmp [of c x ys] by (metis set_mset_add_mset_insert set_mset_mset)

lemma sorted_insert_cmp:
  assumes "\<forall>z \<in> set (x # ys). k z = Num (r z)" and "sorted (map r ys)"
  shows "sorted (map r (insert_cmp (\<lambda>a b. js_sub (k a) (k b)) x ys))"
  using assms
proof (induction ys)
  case Nil
  then show ?case by simp
next
  case (Cons y ys)
  have pos: "js_pos (js_sub (k x) (k y)) \<longleftrightarrow> r y < r x"
    using Cons.prems(1) by (simp add: js_pos_def js_sub_def)
  show ?case
  proof (cases "r y < r x")
    case True
    have "sorted (map r (insert_cmp (\<lambda>a b. js_sub (k a) (k b)) x ys))"
      using Cons by simp
    moreover have "\<forall>z \<in> set (insert_cmp (\<lambda>a b. js_sub (k a) (k b)) x ys). r y \<le> r z"
      using True Cons.prems(2) by (auto simp add: set_insert_cmp)
    ultimately show ?thesis using True pos by simp
  next
    case False
    then show ?thesis using pos Cons.prems(2) by auto
  qed
qed

lemma sorted_sort_cmp:
  assumes "\<forall>z \<in> set xs. k z = Num (r z)"
  shows "sorted (map r (sort_cmp (\<lambda>a b. js_sub (k a) (k b)) xs))"
  using assms
proof (induction xs)
  case Nil
  then show ?case by (simp add: sort_cmp_def)
next
  case (Cons x xs)
  have s: "sort_cmp (\<lambda>a b. js_sub (k a) (k b)) (x # xs)
             = insert_cmp (\<lambda>a b. js_sub (k a) (k b)) x (sort_cmp (\<lambda>a b. js_sub (k a) (k b)) xs)"
    by (simp add: sort_cmp_def)
  show ?case
    unfolding s
    by (rule sorted_insert_cmp) (use Cons in \<open>simp_all add: set_sort_cmp\<close>)
qed

lemma locate_fields:
  "l_site (locate hdist u v st) = st"
  "l_distance (locate hdist u v st) = js_round (hdist u v (Num (s_lat st)) (Num (s_lng st)))"
  "l_isNear (locate hdist u v st)
     = js_le (hdist u v (Num (s_lat st)) (Num (s_lng st))) (Num (s_radius st))"
  by (simp_all add: locate_def Let_def)

lemma is_num_val: "is_num a \<Longrightarrow> a = Num (num_val a)"
  by (cases a) (simp_all add: is_num_def num_val_def)

lemma nearby_ascending:
  assumes "\<forall>z \<in> set (map (locate hdist u v) HISTORICAL_SITES). is_num (l_distance z)"
  shows "sorted (map (\<lambda>z. num_val (l_distance z))
           (sort_cmp by_distance (map (locate hdist u v) HISTORICAL_SITES)))"
proof -
  have num: "\<forall>z \<in> set (map (locate hdist u v) HISTORICAL_SITES).
               l_distance z = Num (num_val (l_distance z))"
    using assms is_num_val by blast
  have bd: "by_distance = (\<lambda>a b. js_sub (l_distance a) (l_distance b))"
    by (simp add: by_distance_def fun_eq_iff)
  show ?thesis
    unfolding bd using num by (rule sorted_sort_cmp)
qed

lemma nearby_sites:
  "mset (map l_site (sort_cmp by_distance (map (locate hdist u v) HISTORICAL_SITES)))
     = mset HISTORICAL_SITES"
  by (simp add: mset_sort_cmp multiset.map_comp comp_def locate_fields)

lemma nearby_annotated:
  assumes "e \<in> set (sort_cmp by_distance (map (locate hdist u v) HISTORICAL_SITES))"
  shows "l_distance e = js_round (hdist u v (Num (s_lat (l_site e))) (Num (s_lng (l_site e))))"
    and "l_isNear e
           = js_le (hdist u v (Num (s_lat (l_site e))) (Num (s_lng (l_site e))))
               (Num (s_radius (l_site e)))"
proof -
  from assms obtain st where "e = locate hdist u v st"
    by (auto simp add: set_sort_cmp)
  then show "l_distance e = js_round (hdist u v (Num (s_lat (l_site e))) (Num (s_lng (l_site e))))"
    and "l_isNear e
           = js_le (hdist u v (Num (s_lat (l_site e))) (Num (s_lng (l_site e))))
               (Num (s_radius (l_site e)))"
    by (simp_all add: locate_fields)
qed

text \<open>
  An entry whose distance is NaN is not moved by the sort: when the distance to the first
  site of the table, \<open>rach-gam\<close>, is NaN, that site stays first in the reply.
\<close>

lemma insert_cmp_nan: "\<forall>y. c x y = NaN \<Longrightarrow> insert_cmp c x ys = x # ys"
  by (cases ys) (simp_all add: js_pos_def)

lemma first_site: "s_id (hd HISTORICAL_SITES) = ''rach-gam''"
  by (simp add: HISTORICAL_SITES_def)

lemma nearby_nan_first:
  assumes "truthy lat" "truthy lng"
    and "hdist (pf (to_text lat)) (pf (to_text lng))
           (Num (s_lat (hd HISTORICAL_SITES))) (Num (s_lng (hd HISTORICAL_SITES))) = NaN"
  shows "\<exists>rest. nearby pf hdist lat lng
           = NearbyJson (\<lparr>l_site = hd HISTORICAL_SITES, l_distance = NaN, l_isNear = False\<rparr>
                         # rest)"
proof -
  let ?u = "pf (to_text lat)" and ?v = "pf (to_text lng)"
  obtain others where sites: "HISTORICAL_SITES = hd HISTORICAL_SITES # others"
    by (cases HISTORICAL_SITES) (simp_all add: HISTORICAL_SITES_def)
  have l: "locate hdist ?u ?v (hd HISTORICAL_SITES)
      = \<lparr>l_site = hd HISTORICAL_SITES, l_distance = NaN, l_isNear = False\<rparr>"
    using assms(3) by (simp add: locate_def Let_def js_round_def js_le_def)
  have "\<forall>y. by_distance (locate hdist ?u ?v (hd HISTORICAL_SITES)) y = NaN"
    by (simp add: l by_distance_def js_sub_def)
  then have "sort_cmp by_distance (map (locate hdist ?u ?v) (hd HISTORICAL_SITES # others))
      = locate hdist ?u ?v (hd HISTORICAL_SITES)
        # sort_cmp by_distance (map (locate hdist ?u ?v) others)"
    by (simp add: sort_cmp_def insert_cmp_nan)
  then have "sort_cmp by_distance (map (locate hdist ?u ?v) HISTORICAL_SITES)
      = locate hdist ?u ?v (hd HISTORICAL_SITES)
        # sort_cmp by_distance (map (locate hdist ?u ?v) others)"
    using sites by simp
  with assms(1,2) l show ?thesis
    by (simp add: nearby_def Let_def)
qed

text \<open>
  C8, as the code has it. When \<open>lat\<close> or \<open>lng\<close> is missing (or empty) the reply is 400
  with an error. Otherwise the reply is the list of the fixed sites, each once, each with
  \<open>distance\<close> the distance that \<open>haversineDistance\<close> returns, rounded by \<open>Math.round\<close>,
  and with \<open>isNear\<close> true exactly when the distance returned, not rounded, is at most the
  site's radius; and when every \<open>distance\<close> is a number the list ascends by it.
\<close>

theorem nearby_reply:
  "(\<not> truthy lat \<or> \<not> truthy lng \<longrightarrow>
      nearby pf hdist lat lng = NearbyError 400 ''lat and lng required'')
   \<and> (truthy lat \<and> truthy lng \<longrightarrow>
      (\<exists>out. nearby pf hdist lat lng = NearbyJson out
         \<and> mset (map l_site out) = mset HISTORICAL_SITES
         \<and> (\<forall>e \<in> set out.
               l_distance e
                 = js_round (hdist (pf (to_text lat)) (pf (to_text lng))
                     (Num (s_lat (l_site e))) (Num (s_lng (l_site e))))
               \<and> l_isNear e
                 = js_le (hdist (pf (to_text lat)) (pf (to_text lng))
                     (Num (s_lat (l_site e))) (Num (s_lng (l_site e))))
                     (Num (s_radius (l_site e))))
         \<and> ((\<forall>e \<in> set out. is_num (l_distance e)) \<longrightarrow>
              sorted (map (\<lambda>e. num_val (l_distance e)) out))))"
proof -
  let ?out = "sort_cmp by_distance
      (map (locate hdist (pf (to_text lat)) (pf (to_text lng))) HISTORICAL_SITES)"
  have missing: "nearby pf hdist lat lng = NearbyError 400 ''lat and lng required''"
    if "\<not> truthy lat \<or> \<not> truthy lng"
    using that by (auto simp add: nearby_def)
  have given: "nearby pf hdist lat lng = NearbyJson ?out" if "truthy lat \<and> truthy lng"
    using that by (simp add: nearby_def Let_def)
  have ann: "\<forall>e \<in> set ?out.
               l_distance e
                 = js_round (hdist (pf (to_text lat)) (pf (to_text lng))
                     (Num (s_lat (l_site e))) (Num (s_lng (l_site e))))
               \<and> l_isNear e
                 = js_le (hdist (pf (to_text lat)) (pf (to_text lng))
                     (Num (s_lat (l_site e))) (Num (s_lng (l_site e))))
                     (Num (s_radius (l_site e)))"
    using nearby_annotated by blast
  have nums: "sorted (map (\<lambda>e. num_val (l_distance e)) ?out)"
    if "\<forall>e \<in> set ?out. is_num (l_distance e)"
    using that by (intro nearby_ascending) (simp only: set_sort_cmp)
  from missing given ann nums nearby_sites show ?thesis
    by (intro conjI impI exI [of _ ?out]) blast+
qed


lemma haversine_same_point: "haversineDistance (Num a) (Num b) (Num a) (Num b) = Num 0"
  by (simp add: haversine_num hav_a_def atan2_def)

lemma dong_da_located:
  "locate haversineDistance (Num 21.01) (Num 105.83)
     \<lparr>s_id = ''dong-da'',
      s_name = ''G'' @ [CHR 0xC3, CHR 0xB2] @ '' '' @ [CHR 0xC4, CHR 0x90, CHR 0xE1, CHR 0xBB, CHR 0x91]
               @ ''ng '' @ [CHR 0xC4, CHR 0x90] @ ''a'',
      s_lat = 21.01, s_lng = 105.83, s_radius = 1000\<rparr>
   \<in> set (map (locate haversineDistance (Num 21.01) (Num 105.83)) HISTORICAL_SITES)"
  by (simp add: HISTORICAL_SITES_def)

lemma exact_distances_numbers:
  "\<forall>z \<in> set (sort_cmp by_distance (map (locate haversineDistance (Num x) (Num y)) HISTORICAL_SITES)).
     is_num (l_distance z)"
  by (auto simp add: set_sort_cmp locate_fields haversine_num js_round_def is_num_def)

text \<open>
  The request without \<open>lat\<close>, and the request \<open>lat=21.01&lng=105.83\<close>, which is the place
  of the site \<open>dong-da\<close>, with the distances of the exact arithmetic (at the place of a
  site the machine computes the distance 0 as well).
\<close>

theorem nearby_reply_witness:
  "nearby demo_coords haversineDistance None (Some ''105.83'')
     = NearbyError 400 ''lat and lng required''
   \<and> (\<exists>out. nearby demo_coords haversineDistance (Some ''21.01'') (Some ''105.83'')
          = NearbyJson out
        \<and> mset (map l_site out) = mset HISTORICAL_SITES
        \<and> sorted (map (\<lambda>e. num_val (l_distance e)) out)
        \<and> (\<exists>e \<in> set out. s_id (l_site e) = ''dong-da'' \<and> l_distance e = Num 0 \<and> l_isNear e))"
proof -
  have none: "nearby demo_coords haversineDistance None (Some ''105.83'')
      = NearbyError 400 ''lat and lng required''"
    using nearby_reply [where lat = None and lng = "Some ''105.83''" and pf = demo_coords
        and hdist = haversineDistance]
    by (simp add: truthy_def)
  have pf: "demo_coords (to_text (Some ''21.01'')) = Num 21.01"
    "demo_coords (to_text (Some ''105.83'')) = Num 105.83"
    by (simp_all add: demo_coords_def to_text_def)
  have given: "truthy (Some ''21.01'') \<and> truthy (Some ''105.83'')"
    by (simp add: truthy_def)
  obtain out where out:
    "nearby demo_coords haversineDistance (Some ''21.01'') (Some ''105.83'') = NearbyJson out"
    "mset (map l_site out) = mset HISTORICAL_SITES"
    "(\<forall>e \<in> set out. is_num (l_distance e)) \<longrightarrow> sorted (map (\<lambda>e. num_val (l_distance e)) out)"
    using nearby_reply [where lat = "Some ''21.01''" and lng = "Some ''105.83''"
        and pf = demo_coords and hdist = haversineDistance] given
    by blast
  have eq: "out = sort_cmp by_distance
      (map (locate haversineDistance (Num 21.01) (Num 105.83)) HISTORICAL_SITES)"
    using out(1) by (simp add: nearby_def truthy_def pf Let_def)
  have "\<forall>e \<in> set out. is_num (l_distance e)"
    unfolding eq by (rule exact_distances_numbers)
  with out(3) have asc: "sorted (map (\<lambda>e. num_val (l_distance e)) out)" by blast
  have "\<exists>e \<in> set out. s_id (l_site e) = ''dong-da'' \<and> l_distance e = Num 0 \<and> l_isNear e"
    unfolding eq using dong_da_located
    by (intro bexI [where x = "locate haversineDistance (Num 21.01) (Num 105.83)
         \<lparr>s_id = ''dong-da'',
          s_name = ''G'' @ [CHR 0xC3, CHR 0xB2] @ '' '' @ [CHR 0xC4, CHR 0x90, CHR 0xE1, CHR 0xBB, CHR 0x91]
                   @ ''ng '' @ [CHR 0xC4, CHR 0x90] @ ''a'',
          s_lat = 21.01, s_lng = 105.83, s_radius = 1000\<rparr>"])
       (simp_all add: locate_fields haversine_same_point js_round_def js_le_def
         set_sort_cmp)
  with none out(1,2) asc show ?thesis by blast
qed

text \<open>
  Bounds on \<open>pi\<close> from the Maclaurin series of the sine, for evaluating a distance.
\<close>

lemma sixteen: "(16::nat) = Suc (Suc (Suc (Suc (Suc (Suc (Suc (Suc (Suc (Suc (Suc (Suc (Suc (Suc (Suc (Suc 0)))))))))))))))"
  by simp

lemma sin_poly: "(\<Sum>m<16. sin_coeff m * x ^ m) =
   x - x^3 / 6 + x^5 / 120 - x^7 / 5040 + x^9 / 362880 - x^11 / 39916800
     + x^13 / 6227020800 - x^15 / 1307674368000" for x :: real
  unfolding sixteen
  apply (simp only: sum.lessThan_Suc lessThan_0 sum.empty)
  apply (simp add: sin_coeff_def fact_numeral numeral_eq_Suc [symmetric] del: power_Suc)
  apply (simp add: eval_nat_numeral del: power_Suc)
  done

lemma fact16: "fact 16 = (20922789888000 :: real)"
  by (simp add: fact_numeral)

lemma sin_3141_pos: "0 < sin (3141 / 1000 :: real)"
proof -
  have "\<bar>sin (3141 / 1000 :: real) - (\<Sum>m<16. sin_coeff m * (3141 / 1000) ^ m)\<bar>
          \<le> inverse (fact 16) * \<bar>3141 / 1000\<bar> ^ 16"
    by (rule Maclaurin_sin_bound)
  moreover have "inverse (fact 16) * \<bar>3141 / 1000 :: real\<bar> ^ 16 < 1 / 10000"
    unfolding fact16 by (simp add: power_divide)
  moreover have "(\<Sum>m<16. sin_coeff m * (3141 / 1000 :: real) ^ m) > 5 / 10000"
    unfolding sin_poly by (simp add: power_divide)
  ultimately show ?thesis by linarith
qed

lemma sin_3142_neg: "sin (3142 / 1000 :: real) < 0"
proof -
  have "\<bar>sin (3142 / 1000 :: real) - (\<Sum>m<16. sin_coeff m * (3142 / 1000) ^ m)\<bar>
          \<le> inverse (fact 16) * \<bar>3142 / 1000\<bar> ^ 16"
    by (rule Maclaurin_sin_bound)
  moreover have "inverse (fact 16) * \<bar>3142 / 1000 :: real\<bar> ^ 16 < 1 / 10000"
    unfolding fact16 by (simp add: power_divide)
  moreover have "(\<Sum>m<16. sin_coeff m * (3142 / 1000 :: real) ^ m) < - 3 / 10000"
    unfolding sin_poly by (simp add: power_divide)
  ultimately show ?thesis by linarith
qed

lemma pi_bounds: "3141 / 1000 < pi" "pi < 3142 / 1000"
proof -
  show "3141 / 1000 < pi"
  proof (rule ccontr)
    assume "\<not> 3141 / 1000 < pi"
    then have "pi \<le> 3141 / 1000" by simp
    moreover have "(3141 / 1000 :: real) < 2 * pi" using pi_ge_two by linarith
    ultimately have "sin (3141 / 1000 :: real) \<le> 0" by (rule sin_le_zero)
    with sin_3141_pos show False by linarith
  qed
  show "pi < 3142 / 1000"
  proof (rule ccontr)
    assume "\<not> pi < 3142 / 1000"
    then have "3142 / 1000 \<le> pi" by simp
    then have "0 \<le> sin (3142 / 1000 :: real)" by (intro sin_ge_zero) simp_all
    with sin_3142_neg show False by linarith
  qed
qed

text \<open>Two points on one meridian: the distance is the radius times the angle.\<close>

lemma atan2_sin_cos:
  assumes "0 \<le> t" "t < pi / 2"
  shows "atan2 (sqrt (sin t * sin t)) (sqrt (1 - sin t * sin t)) = t"
proof -
  have s: "0 \<le> sin t" using assms by (intro sin_ge_zero) (use pi_gt_zero in linarith)+
  have c: "0 < cos t" using assms by (intro cos_gt_zero_pi) linarith+
  have "1 - sin t * sin t = cos t * cos t"
    using sin_cos_squared_add [of t] by (simp add: power2_eq_square algebra_simps)
  then have "sqrt (1 - sin t * sin t) = cos t" using c by simp
  moreover have "sqrt (sin t * sin t) = sin t" using s by simp
  moreover have "arctan (sin t / cos t) = t"
    using arctan_tan [of t] assms by (simp add: tan_def)
  ultimately show ?thesis using c by (simp add: atan2_def)
qed

lemma haversine_same_lng:
  assumes "\<bar>c - a\<bar> < 180"
  shows "haversineDistance (Num a) (Num b) (Num c) (Num b) = Num (12742000 * (\<bar>c - a\<bar> * pi / 360))"
proof -
  let ?t = "\<bar>c - a\<bar> * pi / 360"
  have t: "0 \<le> ?t" "?t < pi / 2" using assms pi_gt_zero by (simp_all add: field_simps)
  have "sin ((c - a) * pi / 180 / 2) * sin ((c - a) * pi / 180 / 2) = sin ?t * sin ?t"
  proof (cases "0 \<le> c - a")
    case True
    then show ?thesis by simp
  next
    case False
    then have "(c - a) * pi / 180 / 2 = - ?t" by (simp add: abs_if field_simps)
    then have "sin ((c - a) * pi / 180 / 2) = - sin ?t" by (simp only: sin_minus)
    then show ?thesis by simp
  qed
  then have h: "hav_a a b c b = sin ?t * sin ?t" by (simp add: hav_a_def)
  have "haversineDistance (Num a) (Num b) (Num c) (Num b)
          = Num (6371000 * 2 * atan2 (sqrt (hav_a a b c b)) (sqrt (1 - hav_a a b c b)))"
    by (rule haversine_num)
  also have "\<dots> = Num (6371000 * 2 * ?t)"
    by (simp only: h atan2_sin_cos [OF t])
  also have "\<dots> = Num (12742000 * ?t)" by simp
  finally show ?thesis .
qed


lemma edge_distance:
  "haversineDistance (Num 21.018996) (Num 105.83) (Num 21.01) (Num 105.83)
     = Num (12742000 * (8996 / 1000000 * pi / 360))"
  using haversine_same_lng [of "21.01" "21.018996" "105.83"] by simp

lemma edge_distance_bounds:
  "1000 < 12742000 * (8996 / 1000000 * pi / 360)"
  "12742000 * (8996 / 1000000 * pi / 360) < 1000 + 1 / 2"
  using pi_bounds by simp_all

lemma edge_round: "\<lfloor>12742000 * (8996 / 1000000 * pi / 360) + 1 / 2\<rfloor> = 1000"
  using edge_distance_bounds by (intro floor_unique) simp_all

lemma edge_located:
  fixes st :: site
  assumes "s_lat st = 21.01" "s_lng st = 105.83" "s_radius st = 1000"
  shows "l_distance (locate haversineDistance (Num 21.018996) (Num 105.83) st) = Num 1000"
    and "\<not> l_isNear (locate haversineDistance (Num 21.018996) (Num 105.83) st)"
    and "haversineDistance (Num 21.018996) (Num 105.83) (Num (s_lat st)) (Num (s_lng st))
           \<noteq> Num 1000"
proof -
  have "haversineDistance (Num 21.018996) (Num 105.83) (Num (s_lat st)) (Num (s_lng st))
          = Num (12742000 * (8996 / 1000000 * pi / 360))"
    by (simp only: assms edge_distance)
  then show "haversineDistance (Num 21.018996) (Num 105.83) (Num (s_lat st)) (Num (s_lng st))
           \<noteq> Num 1000"
    using edge_distance_bounds(1) by simp
  have "l_distance (locate haversineDistance (Num 21.018996) (Num 105.83) st)
          = js_round (Num (12742000 * (8996 / 1000000 * pi / 360)))"
    by (simp only: locate_fields assms edge_distance)
  also have "\<dots> = Num (of_int \<lfloor>12742000 * (8996 / 1000000 * pi / 360) + 1 / 2\<rfloor>)"
    by (simp only: js_round_def jsnum.case)
  also have "\<dots> = Num 1000" by (simp only: edge_round) simp
  finally show "l_distance (locate haversineDistance (Num 21.018996) (Num 105.83) st) = Num 1000" .
  have "l_isNear (locate haversineDistance (Num 21.018996) (Num 105.83) st)
          = js_le (Num (12742000 * (8996 / 1000000 * pi / 360))) (Num 1000)"
    by (simp only: locate_fields assms edge_distance)
  also have "\<dots> = (12742000 * (8996 / 1000000 * pi / 360) \<le> 1000)"
    by (simp only: js_le_def jsnum.case)
  finally show "\<not> l_isNear (locate haversineDistance (Num 21.018996) (Num 105.83) st)"
    using edge_distance_bounds(1) by simp
qed

text \<open>
  C8 as the claim states it fails at the edge of a radius. For \<open>lat=21.018996&lng=105.83\<close>
  the haversine distance to the site \<open>dong-da\<close> (radius 1000) lies between 1000 and
  1000.5 (the machine computes 1000.3095...): the entry carries \<open>distance\<close> 1000, which
  is not the haversine distance and is not above the radius, and \<open>isNear\<close> false.
\<close>

theorem nearby_rounding_counterexample:
  "\<exists>out e. nearby demo_coords_edge haversineDistance (Some ''21.018996'') (Some ''105.83'')
         = NearbyJson out
     \<and> e \<in> set out
     \<and> s_id (l_site e) = ''dong-da''
     \<and> s_radius (l_site e) = 1000
     \<and> l_distance e = Num 1000
     \<and> \<not> l_isNear e
     \<and> haversineDistance (Num 21.018996) (Num 105.83)
           (Num (s_lat (l_site e))) (Num (s_lng (l_site e))) \<noteq> l_distance e"
proof -
  define st :: site where "st = \<lparr>s_id = ''dong-da'',
      s_name = ''G'' @ [CHR 0xC3, CHR 0xB2] @ '' '' @ [CHR 0xC4, CHR 0x90, CHR 0xE1, CHR 0xBB, CHR 0x91]
               @ ''ng '' @ [CHR 0xC4, CHR 0x90] @ ''a'',
      s_lat = 21.01, s_lng = 105.83, s_radius = 1000\<rparr>"
  let ?out = "sort_cmp by_distance
      (map (locate haversineDistance (Num 21.018996) (Num 105.83)) HISTORICAL_SITES)"
  have st: "s_id st = ''dong-da''" "s_lat st = 21.01" "s_lng st = 105.83" "s_radius st = 1000"
    by (simp_all add: st_def)
  have "st \<in> set HISTORICAL_SITES"
    by (simp add: st_def HISTORICAL_SITES_def)
  then have mem: "locate haversineDistance (Num 21.018996) (Num 105.83) st \<in> set ?out"
    by (simp add: set_sort_cmp)
  have "nearby demo_coords_edge haversineDistance (Some ''21.018996'') (Some ''105.83'')
      = NearbyJson ?out"
    by (simp add: nearby_def truthy_def to_text_def demo_coords_edge_def Let_def)
  with mem edge_located [OF st(2,3,4)] st(1,4) show ?thesis
    by (intro exI [of _ ?out] exI [of _ "locate haversineDistance (Num 21.018996) (Num 105.83) st"])
       (simp add: locate_fields)
qed

end
